theory Spec2Isabelle
  imports Complex_Main "HOL-Library.List_Lexorder"
begin

section \<open>Shared data model\<close>

text \<open>
  Errors are values. A rejected promise or a thrown exception of the TypeScript source is
  the \<open>Inl\<close> branch of a sum; \<open>try { body } catch (e) { handler }\<close> is \<open>try_catch\<close>.
\<close>

datatype io_error = IOError

datatype db_error = RecordNotFound | UniqueViolation | DbFailure

definition try_catch :: "'e + 'a \<Rightarrow> ('e \<Rightarrow> 'e + 'a) \<Rightarrow> 'e + 'a" where
  "try_catch body handler = (case body of Inl e \<Rightarrow> handler e | Inr v \<Rightarrow> Inr v)"

text \<open>JavaScript truthiness of an optional string: \<open>undefined\<close> and \<open>''\<close> are falsy.\<close>

definition truthy_str :: "string option \<Rightarrow> bool" where
  "truthy_str s = (case s of None \<Rightarrow> False | Some t \<Rightarrow> t \<noteq> [])"

definition LF :: char where
  "LF = CHR 0x0A"

text \<open>\<open>content.split(sep)\<close> for a one-character separator; \<open>''.split(sep)\<close> is \<open>['']\<close>.\<close>

fun split_char :: "char \<Rightarrow> string \<Rightarrow> string list" where
  "split_char sep [] = [[]]"
| "split_char sep (c # cs) =
     (if c = sep then [] # split_char sep cs
      else (case split_char sep cs of [] \<Rightarrow> [[c]] | w # ws \<Rightarrow> (c # w) # ws))"

section \<open>File scanner: countLines (file-scanner.service.ts)\<close>

text \<open>
  \<open>countLines(filePath)\<close> reads the file and returns \<open>content.split('\n').length\<close>; a
  failed read is caught and yields 0. The outcome of \<open>fs.readFile\<close> is the argument.
\<close>

definition countLines :: "io_error + string \<Rightarrow> nat" where
  "countLines readFile =
     (case readFile of
        Inl error \<Rightarrow> 0
      | Inr content \<Rightarrow> length (split_char LF content))"

section \<open>Analysis records (analysis.repository.ts)\<close>

datatype JobStatus = queued | processing | completed | failed | cancelled

record AnalysisOptions =
  includeTests :: bool
  maxFileSizeKB :: int
  languages :: "string list option"
  excludePatterns :: "string list option"
  deepAnalysis :: "bool option"

record AnalysisRow =
  a_id :: string
  a_repositoryUrl :: string
  a_owner :: string
  a_name :: string
  a_branch :: string
  a_commitSha :: "string option"
  a_status :: JobStatus
  a_error :: "string option"
  a_options :: AnalysisOptions
  a_createdAt :: nat
  a_startedAt :: "nat option"
  a_completedAt :: "nat option"

type_synonym analysis_table = "string \<rightharpoonup> AnalysisRow"

record CreateData =
  cd_id :: string
  cd_repositoryUrl :: string
  cd_owner :: string
  cd_name :: string
  cd_branch :: string
  cd_options :: AnalysisOptions

text \<open>
  \<open>create\<close> inserts a row with status \<open>queued\<close>; the columns it does not give are null
  and \<open>createdAt\<close> is the time of the insert. A duplicate id is rejected by the primary key.
\<close>

definition create :: "nat \<Rightarrow> CreateData \<Rightarrow> analysis_table \<Rightarrow> db_error + analysis_table" where
  "create now d db =
     (case db (cd_id d) of
        Some r \<Rightarrow> Inl UniqueViolation
      | None \<Rightarrow>
          Inr (db(cd_id d \<mapsto>
            \<lparr>a_id = cd_id d, a_repositoryUrl = cd_repositoryUrl d, a_owner = cd_owner d,
             a_name = cd_name d, a_branch = cd_branch d, a_commitSha = None,
             a_status = queued, a_error = None, a_options = cd_options d,
             a_createdAt = now, a_startedAt = None, a_completedAt = None\<rparr>)))"

text \<open>The \<open>updateData\<close> object of \<open>updateStatus\<close>: only the fields it sets are written.\<close>

record UpdateData =
  u_status :: JobStatus
  u_startedAt :: "nat option"
  u_completedAt :: "nat option"
  u_error :: "string option"

definition updateData :: "nat \<Rightarrow> JobStatus \<Rightarrow> string option \<Rightarrow> UpdateData" where
  "updateData now status error =
     (let d0 = \<lparr>u_status = status, u_startedAt = None, u_completedAt = None, u_error = None\<rparr>;
          d1 = (if status = processing \<and> \<not> truthy_str error then d0\<lparr>u_startedAt := Some now\<rparr>
                else if status = completed \<or> status = failed then d0\<lparr>u_completedAt := Some now\<rparr>
                else d0)
      in if truthy_str error then d1\<lparr>u_error := error\<rparr> else d1)"

definition apply_update :: "UpdateData \<Rightarrow> AnalysisRow \<Rightarrow> AnalysisRow" where
  "apply_update d r =
     r\<lparr>a_status := u_status d,
       a_startedAt := (case u_startedAt d of None \<Rightarrow> a_startedAt r | Some t \<Rightarrow> Some t),
       a_completedAt := (case u_completedAt d of None \<Rightarrow> a_completedAt r | Some t \<Rightarrow> Some t),
       a_error := (case u_error d of None \<Rightarrow> a_error r | Some e \<Rightarrow> Some e)\<rparr>"

text \<open>
  \<open>updateStatus(id, status, error?)\<close> at time \<open>now\<close>. \<open>prisma.analysis.update\<close> throws
  when no row has the id; the catch block logs and rethrows.
\<close>

definition updateStatus ::
  "nat \<Rightarrow> string \<Rightarrow> JobStatus \<Rightarrow> string option \<Rightarrow> analysis_table \<Rightarrow> db_error + analysis_table" where
  "updateStatus now ident status error db =
     try_catch
       (case db ident of
          None \<Rightarrow> Inl RecordNotFound
        | Some r \<Rightarrow> Inr (db(ident \<mapsto> apply_update (updateData now status error) r)))
       (\<lambda>e. Inl e)"

text \<open>A history of \<open>updateStatus\<close> calls on one record, each \<open>(now, status, error)\<close>.\<close>

type_synonym status_call = "nat \<times> JobStatus \<times> string option"

fun updateStatus_calls :: "string \<Rightarrow> status_call list \<Rightarrow> analysis_table \<Rightarrow> db_error + analysis_table" where
  "updateStatus_calls ident [] db = Inr db"
| "updateStatus_calls ident ((now, status, error) # calls) db =
     (case updateStatus now ident status error db of
        Inl e \<Rightarrow> Inl e
      | Inr db' \<Rightarrow> updateStatus_calls ident calls db')"

text \<open>What a reader of the record sees: status, startedAt, completedAt.\<close>

definition observe :: "db_error + analysis_table \<Rightarrow> string \<Rightarrow> (JobStatus \<times> nat option \<times> nat option) option" where
  "observe outcome ident =
     (case outcome of
        Inl e \<Rightarrow> None
      | Inr db \<Rightarrow> map_option (\<lambda>r. (a_status r, a_startedAt r, a_completedAt r)) (db ident))"

definition sets_completed :: "status_call \<Rightarrow> bool" where
  "sets_completed c = (fst (snd c) = completed \<or> fst (snd c) = failed)"

definition sets_started :: "status_call \<Rightarrow> bool" where
  "sets_started c = (fst (snd c) = processing \<and> \<not> truthy_str (snd (snd c)))"

definition demo_options :: AnalysisOptions where
  "demo_options = \<lparr>includeTests = True, maxFileSizeKB = 1000, languages = None,
     excludePatterns = None, deepAnalysis = Some False\<rparr>"

definition demo_create :: CreateData where
  "demo_create = \<lparr>cd_id = ''a1'', cd_repositoryUrl = ''https://github.com/acme/widgets'',
     cd_owner = ''acme'', cd_name = ''widgets'', cd_branch = ''main'', cd_options = demo_options\<rparr>"

definition after_create :: "status_call list \<Rightarrow> db_error + analysis_table" where
  "after_create calls =
     (case create 0 demo_create Map.empty of
        Inl e \<Rightarrow> Inl e
      | Inr db \<Rightarrow> updateStatus_calls ''a1'' calls db)"

subsection \<open>list and the GET /analyses handler (analysis.routes.ts)\<close>

text \<open>The columns selected by \<open>list\<close>.\<close>

record AnalysisSummary =
  s_id :: string
  s_repositoryUrl :: string
  s_owner :: string
  s_name :: string
  s_branch :: string
  s_status :: JobStatus
  s_createdAt :: nat
  s_completedAt :: "nat option"
  s_error :: "string option"

text \<open>
  The two store queries of \<open>list\<close> are parameters: \<open>findMany wh take skip\<close> (ordered by
  \<open>createdAt\<close> descending) and \<open>count wh\<close>, each returning rows or throwing. \<open>wh\<close> is the
  status filter, \<open>None\<close> for the empty \<open>where\<close> object.
\<close>

record PrismaAnalysis =
  findMany :: "string option \<Rightarrow> int \<Rightarrow> int \<Rightarrow> db_error + AnalysisSummary list"
  count_rows :: "string option \<Rightarrow> db_error + nat"

record ListOptions =
  lo_limit :: "int option"
  lo_offset :: "int option"
  lo_status :: "string option"

record ListResult =
  lr_analyses :: "AnalysisSummary list"
  lr_total :: nat

text \<open>\<open>Promise.all([a, b])\<close> of two queries: rejected when either is.\<close>

definition promise_all2 :: "'e + 'a \<Rightarrow> 'e + 'b \<Rightarrow> 'e + ('a \<times> 'b)" where
  "promise_all2 a b =
     (case a of Inl e \<Rightarrow> Inl e | Inr x \<Rightarrow> (case b of Inl e \<Rightarrow> Inl e | Inr y \<Rightarrow> Inr (x, y)))"

definition list_limit :: "ListOptions \<Rightarrow> int" where
  "list_limit options = (case lo_limit options of None \<Rightarrow> 20 | Some l \<Rightarrow> l)"

definition list_offset :: "ListOptions \<Rightarrow> int" where
  "list_offset options = (case lo_offset options of None \<Rightarrow> 0 | Some k \<Rightarrow> k)"

definition list_where :: "ListOptions \<Rightarrow> string option" where
  "list_where options = (if truthy_str (lo_status options) then lo_status options else None)"

definition list_records :: "PrismaAnalysis \<Rightarrow> ListOptions \<Rightarrow> db_error + ListResult" where
  "list_records prisma options =
     try_catch
       (let limit = list_limit options;
            offset = list_offset options;
            wh = list_where options
        in case promise_all2 (findMany prisma wh limit offset) (count_rows prisma wh) of
             Inl e \<Rightarrow> Inl e
           | Inr (rows, n) \<Rightarrow> Inr \<lparr>lr_analyses = rows, lr_total = n\<rparr>)
       (\<lambda>error. Inr \<lparr>lr_analyses = [], lr_total = 0\<rparr>)"

record AnalysisListItem =
  li_analysis_id :: string
  li_repository_url :: string
  li_status :: JobStatus
  li_created_at :: nat
  li_completed_at :: "nat option"

record AnalysesPage =
  pg_analyses :: "AnalysisListItem list"
  pg_total :: nat
  pg_page :: int

record 'b HttpResponse =
  statusCode :: nat
  body :: 'b

text \<open>
  The handler of \<open>GET /analyses\<close>. \<open>q_limit\<close> and \<open>q_offset\<close> are the results of
  \<open>parseInt\<close> on the query strings (\<open>None\<close> for NaN); \<open>n || 20\<close> replaces NaN and 0.
  \<open>res.json\<close> answers with status 200. A rejection would reach the error middleware.
\<close>

definition query_limit :: "int option \<Rightarrow> int" where
  "query_limit q_limit = (case q_limit of None \<Rightarrow> 20 | Some n \<Rightarrow> if n = 0 then 20 else n)"

definition query_offset :: "int option \<Rightarrow> int" where
  "query_offset q_offset = (case q_offset of None \<Rightarrow> 0 | Some n \<Rightarrow> n)"

definition query_options :: "int option \<Rightarrow> int option \<Rightarrow> string option \<Rightarrow> ListOptions" where
  "query_options q_limit q_offset q_status =
     \<lparr>lo_limit = Some (query_limit q_limit), lo_offset = Some (query_offset q_offset),
      lo_status = q_status\<rparr>"

definition list_item :: "AnalysisSummary \<Rightarrow> AnalysisListItem" where
  "list_item a = \<lparr>li_analysis_id = s_id a, li_repository_url = s_repositoryUrl a,
     li_status = s_status a, li_created_at = s_createdAt a, li_completed_at = s_completedAt a\<rparr>"

definition get_analyses ::
  "PrismaAnalysis \<Rightarrow> int option \<Rightarrow> int option \<Rightarrow> string option \<Rightarrow> db_error + AnalysesPage HttpResponse" where
  "get_analyses prisma q_limit q_offset q_status =
     (case list_records prisma (query_options q_limit q_offset q_status) of
        Inl e \<Rightarrow> Inl e
      | Inr r \<Rightarrow>
          Inr \<lparr>statusCode = 200,
               body = \<lparr>pg_analyses = map list_item (lr_analyses r),
                       pg_total = lr_total r,
                       pg_page = query_offset q_offset div query_limit q_limit + 1\<rparr>\<rparr>)"

definition failing_prisma :: PrismaAnalysis where
  "failing_prisma = \<lparr>findMany = (\<lambda>wh take skip. Inl DbFailure), count_rows = (\<lambda>wh. Inr 3)\<rparr>"

section \<open>Parsed files\<close>

subsection \<open>The parser output (parser models)\<close>

record Parameter =
  par_name :: string
  par_type :: "string option"

record Location =
  loc_start :: nat
  loc_end :: nat
  loc_line :: "nat option"
  loc_column :: "nat option"

record FunctionInfo =
  f_name :: string
  f_parameters :: "Parameter list"
  f_returnType :: "string option"
  f_isAsync :: bool
  f_isGenerator :: bool
  f_location :: Location
  f_docstring :: "string option"
  f_modifiers :: "string list option"

record Property =
  prop_name :: string
  prop_type :: "string option"

record ClassInfo =
  c_name :: string
  c_methods :: "FunctionInfo list"
  c_properties :: "Property list"
  c_superClass :: "string option"
  c_decorators :: "string list"
  c_location :: Location
  c_docstring :: "string option"

record ImportSpecifier =
  sp_name :: string
  sp_alias :: "string option"

record ImportStatement =
  imp_source :: string
  imp_specifiers :: "ImportSpecifier list"
  imp_isTypeOnly :: bool

record ExportStatement =
  ex_name :: string
  ex_type :: string
  ex_source :: "string option"

text \<open>The object the parsers return; the last four lists are always empty in the source.\<close>

record ParsedFile =
  p_path :: string
  p_language :: string
  p_imports :: "ImportStatement list"
  p_exports :: "ExportStatement list"
  p_functions :: "FunctionInfo list"
  p_classes :: "ClassInfo list"
  p_interfaces :: "string list"
  p_types :: "string list"
  p_constants :: "string list"
  p_enums :: "string list"

subsection \<open>saveParsedFiles (dependency.repository.ts)\<close>

text \<open>
  A row of the ParsedFile table. The \<open>data\<close> column holds \<open>JSON.stringify(file)\<close>; the
  model keeps the serialised value itself. The generated primary key is left out: no
  claim reads it.
\<close>

record ParsedFileRow =
  pf_analysisId :: string
  pf_filePath :: string
  pf_language :: string
  pf_data :: ParsedFile

definition row_key :: "ParsedFileRow \<Rightarrow> string \<times> string" where
  "row_key r = (pf_analysisId r, pf_filePath r)"

text \<open>
  Modelled from the spec: the Prisma schema is not among the sources; the persisted
  layout gives the table \<open>unique(analysisId, filePath)\<close>. \<open>createMany\<close> with
  \<open>skipDuplicates: true\<close> inserts the rows in order and drops each row whose unique key is
  already in the table (stored before, or inserted earlier in the same batch).
\<close>

fun createMany_skipDuplicates :: "ParsedFileRow list \<Rightarrow> ParsedFileRow list \<Rightarrow> ParsedFileRow list" where
  "createMany_skipDuplicates [] tbl = tbl"
| "createMany_skipDuplicates (r # rs) tbl =
     createMany_skipDuplicates rs (if row_key r \<in> set (map row_key tbl) then tbl else tbl @ [r])"

definition saveParsedFiles :: "string \<Rightarrow> ParsedFile list \<Rightarrow> ParsedFileRow list \<Rightarrow> ParsedFileRow list" where
  "saveParsedFiles analysisId parsedFiles tbl =
     (let data = map (\<lambda>file. \<lparr>pf_analysisId = analysisId, pf_filePath = p_path file,
                               pf_language = p_language file, pf_data = file\<rparr>) parsedFiles
      in createMany_skipDuplicates data tbl)"

definition empty_parsed :: "string \<Rightarrow> string \<Rightarrow> ParsedFile" where
  "empty_parsed filePath lang =
     \<lparr>p_path = filePath, p_language = lang, p_imports = [], p_exports = [], p_functions = [],
      p_classes = [], p_interfaces = [], p_types = [], p_constants = [], p_enums = []\<rparr>"

definition demo_files :: "ParsedFile list" where
  "demo_files = [empty_parsed ''src/a.ts'' ''typescript'', empty_parsed ''b.py'' ''python'',
     (empty_parsed ''src/a.ts'' ''typescript'')\<lparr>p_types := [''T'']\<rparr>]"

section \<open>Parser service (parser.service.ts, typescript.parser.ts, python.parser.ts)\<close>

datatype parser_exn = ReadFailed io_error | ParserThrew string

text \<open>What the extraction phase of a language parser fills in.\<close>

record Extracted =
  x_imports :: "ImportStatement list"
  x_exports :: "ExportStatement list"
  x_functions :: "FunctionInfo list"
  x_classes :: "ClassInfo list"

text \<open>
  The environment of the parser service. \<open>pe_stat\<close> and \<open>pe_readFile\<close> are the file
  system; \<open>pe_detectLanguage\<close> is the answer of the language detector for a path;
  \<open>pe_tsParse\<close> is the body of the TypeScript parser's \<open>try\<close> block (the library's
  \<open>parse\<close> followed by the traversal) and \<open>pe_pyExtract\<close> the body of the Python
  parser's, each returning the extracted lists or throwing a message. The JavaScript
  parser is not among the sources: \<open>pe_jsParseFile\<close> is its whole \<open>parseFile\<close>.
\<close>

record ParserEnv =
  pe_stat :: "string \<Rightarrow> io_error + nat"
  pe_readFile :: "string \<Rightarrow> io_error + string"
  pe_detectLanguage :: "string \<Rightarrow> string"
  pe_tsParse :: "string \<Rightarrow> string + Extracted"
  pe_pyExtract :: "string \<Rightarrow> string + Extracted"
  pe_jsParseFile :: "string \<Rightarrow> parser_exn + ParsedFile"

definition parsed_of :: "string \<Rightarrow> string \<Rightarrow> Extracted \<Rightarrow> ParsedFile" where
  "parsed_of filePath lang x =
     \<lparr>p_path = filePath, p_language = lang, p_imports = x_imports x, p_exports = x_exports x,
      p_functions = x_functions x, p_classes = x_classes x, p_interfaces = [], p_types = [],
      p_constants = [], p_enums = []\<rparr>"

text \<open>
  \<open>TypeScriptParser.parseFile\<close>: the read is outside the \<open>try\<close>; a throw inside it is
  caught and answered with a ParsedFile whose lists are empty.
\<close>

definition TypeScriptParser_parseFile :: "ParserEnv \<Rightarrow> string \<Rightarrow> parser_exn + ParsedFile" where
  "TypeScriptParser_parseFile env filePath =
     (case pe_readFile env filePath of
        Inl e \<Rightarrow> Inl (ReadFailed e)
      | Inr content \<Rightarrow>
          try_catch
            (case pe_tsParse env content of
               Inl message \<Rightarrow> Inl (ParserThrew message)
             | Inr x \<Rightarrow> Inr (parsed_of filePath ''typescript'' x))
            (\<lambda>error. Inr (empty_parsed filePath ''typescript'')))"

definition PythonParser_parseFile :: "ParserEnv \<Rightarrow> string \<Rightarrow> parser_exn + ParsedFile" where
  "PythonParser_parseFile env filePath =
     (case pe_readFile env filePath of
        Inl e \<Rightarrow> Inl (ReadFailed e)
      | Inr content \<Rightarrow>
          try_catch
            (case pe_pyExtract env content of
               Inl message \<Rightarrow> Inl (ParserThrew message)
             | Inr x \<Rightarrow> Inr (parsed_of filePath ''python'' x))
            (\<lambda>error. Inr (empty_parsed filePath ''python'')))"

record ParserOptions =
  po_skipLargeFiles :: "bool option"
  po_maxFileSize :: "nat option"

definition DEFAULT_MAX_FILE_SIZE :: nat where
  "DEFAULT_MAX_FILE_SIZE = 1024 * 1024"

definition isSupportedForParsing :: "string \<Rightarrow> bool" where
  "isSupportedForParsing language = (language \<in> set [''typescript'', ''javascript'', ''python''])"

text \<open>\<open>options.maxFileSize || DEFAULT_MAX_FILE_SIZE\<close>: 0 and undefined give the default.\<close>

definition maxSize :: "ParserOptions \<Rightarrow> nat" where
  "maxSize options =
     (case po_maxFileSize options of
        None \<Rightarrow> DEFAULT_MAX_FILE_SIZE
      | Some n \<Rightarrow> if n = 0 then DEFAULT_MAX_FILE_SIZE else n)"

text \<open>The size check: true when \<open>parseFile\<close> returns null before detecting the language.\<close>

definition skipped_for_size :: "ParserEnv \<Rightarrow> ParserOptions \<Rightarrow> string \<Rightarrow> bool" where
  "skipped_for_size env options filePath =
     (po_skipLargeFiles options = Some True \<and>
      (case pe_stat env filePath of Inl error \<Rightarrow> True | Inr sz \<Rightarrow> sz > maxSize options))"

text \<open>The \<open>switch\<close> on the detected language.\<close>

definition route :: "ParserEnv \<Rightarrow> string \<Rightarrow> string \<Rightarrow> parser_exn + ParsedFile option" where
  "route env language filePath =
     (if language = ''typescript'' then map_sum id Some (TypeScriptParser_parseFile env filePath)
      else if language = ''javascript'' then map_sum id Some (pe_jsParseFile env filePath)
      else if language = ''python'' then map_sum id Some (PythonParser_parseFile env filePath)
      else Inr None)"

text \<open>\<open>ParserService.parseFile\<close>; \<open>Inr None\<close> is the \<open>null\<close> result.\<close>

definition parseFile :: "ParserEnv \<Rightarrow> ParserOptions \<Rightarrow> string \<Rightarrow> parser_exn + ParsedFile option" where
  "parseFile env options filePath =
     (if skipped_for_size env options filePath then Inr None
      else
        let language = pe_detectLanguage env filePath
        in if \<not> isSupportedForParsing language then Inr None
           else try_catch (route env language filePath) (\<lambda>error. Inr None))"

text \<open>\<open>Promise.all\<close> over a list: the first rejection rejects the whole.\<close>

fun promise_all :: "('e + 'a) list \<Rightarrow> 'e + 'a list" where
  "promise_all [] = Inr []"
| "promise_all (p # ps) =
     (case p of
        Inl e \<Rightarrow> Inl e
      | Inr v \<Rightarrow> (case promise_all ps of Inl e \<Rightarrow> Inl e | Inr vs \<Rightarrow> Inr (v # vs)))"

definition not_null :: "'a option list \<Rightarrow> 'a list" where
  "not_null results = concat (map (\<lambda>r. case r of None \<Rightarrow> [] | Some v \<Rightarrow> [v]) results)"

definition parseFilesParallel :: "ParserEnv \<Rightarrow> ParserOptions \<Rightarrow> string list \<Rightarrow> parser_exn + ParsedFile list" where
  "parseFilesParallel env options filePaths =
     (case promise_all (map (parseFile env options) filePaths) of
        Inl e \<Rightarrow> Inl e
      | Inr results \<Rightarrow> Inr (not_null results))"

text \<open>The entry, if any, that \<open>parseFile\<close> contributes to the output for one path.\<close>

definition entry_for :: "ParserEnv \<Rightarrow> ParserOptions \<Rightarrow> string \<Rightarrow> ParsedFile list" where
  "entry_for env options filePath =
     (case parseFile env options filePath of Inr (Some pf) \<Rightarrow> [pf] | _ \<Rightarrow> [])"

definition worker_parser_options :: ParserOptions where
  "worker_parser_options = \<lparr>po_skipLargeFiles = Some True, po_maxFileSize = Some (1024 * 500)\<rparr>"

definition broken_ts_env :: ParserEnv where
  "broken_ts_env =
     \<lparr>pe_stat = (\<lambda>p. Inr 8),
      pe_readFile = (\<lambda>p. if p = ''/repo/gone.py'' then Inl IOError else Inr ''export {''),
      pe_detectLanguage = (\<lambda>p. if p = ''/repo/gone.py'' then ''python'' else ''typescript''),
      pe_tsParse = (\<lambda>content. Inl ''Unexpected token''),
      pe_pyExtract = (\<lambda>content. Inr \<lparr>x_imports = [], x_exports = [], x_functions = [], x_classes = []\<rparr>),
      pe_jsParseFile = (\<lambda>p. Inl (ParserThrew ''unused''))\<rparr>"

section \<open>Strings and paths\<close>

text \<open>
  The string operations of the platform that the file-system code uses, on ASCII:
  \<open>toLowerCase\<close>, \<open>startsWith\<close>, \<open>includes\<close> (here \<open>includes_str\<close>), and of the \<open>path\<close> module (POSIX)
  \<open>basename\<close>, \<open>extname\<close>, \<open>join\<close> and \<open>relative\<close>. \<open>join\<close> and \<open>relative\<close> are
  modelled on the arguments the tree builder gives them: a normalised directory path
  with a plain entry name, and a path at or below the root.
\<close>

definition lower_char :: "char \<Rightarrow> char" where
  "lower_char c =
     (let n = (of_char c :: nat) in if 65 \<le> n \<and> n \<le> 90 then char_of (n + 32) else c)"

definition toLowerCase :: "string \<Rightarrow> string" where
  "toLowerCase s = map lower_char s"

definition startsWith :: "string \<Rightarrow> string \<Rightarrow> bool" where
  "startsWith s pre = (take (length pre) s = pre)"

fun includes_str :: "string \<Rightarrow> string \<Rightarrow> bool" where
  "includes_str [] pat = (pat = [])"
| "includes_str (c # cs) pat = (startsWith (c # cs) pat \<or> includes_str cs pat)"

definition SLASH :: char where
  "SLASH = CHR ''/''"

definition DOT :: char where
  "DOT = CHR ''.''"

definition basename :: "string \<Rightarrow> string" where
  "basename p = rev (takeWhile (\<lambda>c. c \<noteq> SLASH) (dropWhile (\<lambda>c. c = SLASH) (rev p)))"

definition extname :: "string \<Rightarrow> string" where
  "extname p =
     (let b = basename p;
          suffix = rev (takeWhile (\<lambda>c. c \<noteq> DOT) (rev b))
      in if DOT \<notin> set b then []
         else if length suffix + 1 = length b then []
         else if b = [DOT, DOT] then []
         else DOT # suffix)"

definition join :: "string \<Rightarrow> string \<Rightarrow> string" where
  "join dir entry = dir @ [SLASH] @ entry"

definition relative :: "string \<Rightarrow> string \<Rightarrow> string" where
  "relative rootPath currentPath =
     (if currentPath = rootPath then [] else drop (length rootPath + 1) currentPath)"

section \<open>File scanner: metadata (file-scanner.service.ts, utils.ts)\<close>

definition LANGUAGE_MAP :: "(string \<times> string) list" where
  "LANGUAGE_MAP =
     [(''.ts'', ''typescript''), (''.tsx'', ''typescript''), (''.js'', ''javascript''),
      (''.jsx'', ''javascript''), (''.py'', ''python''), (''.java'', ''java''), (''.go'', ''go''),
      (''.rs'', ''rust''), (''.c'', ''c''), (''.cpp'', ''cpp''), (''.h'', ''c''), (''.hpp'', ''cpp''),
      (''.cs'', ''csharp''), (''.rb'', ''ruby''), (''.php'', ''php''), (''.swift'', ''swift''),
      (''.kt'', ''kotlin''), (''.scala'', ''scala''), (''.sh'', ''shell''), (''.bash'', ''shell''),
      (''.sql'', ''sql''), (''.html'', ''html''), (''.css'', ''css''), (''.scss'', ''scss''),
      (''.sass'', ''sass''), (''.json'', ''json''), (''.xml'', ''xml''), (''.yaml'', ''yaml''),
      (''.yml'', ''yaml''), (''.md'', ''markdown''), (''.txt'', ''text'')]"

definition getFileExtension :: "string \<Rightarrow> string" where
  "getFileExtension filePath = toLowerCase (extname filePath)"

definition detectLanguage :: "string \<Rightarrow> string" where
  "detectLanguage filePath =
     (case map_of LANGUAGE_MAP (getFileExtension filePath) of
        None \<Rightarrow> ''unknown''
      | Some lang \<Rightarrow> lang)"

definition isTestFile :: "string \<Rightarrow> bool" where
  "isTestFile filePath =
     (let fileName = toLowerCase filePath
      in includes_str fileName ''.test.'' \<or> includes_str fileName ''.spec.''
         \<or> includes_str fileName ''__tests__'' \<or> includes_str fileName ''/test/''
         \<or> includes_str fileName ''/tests/'')"

definition configPatterns :: "string list" where
  "configPatterns = [''config'', ''configuration'', ''.rc'', ''package.json'', ''tsconfig'',
     ''webpack'', ''babel'', ''eslint'', ''prettier'', ''.env'']"

definition isConfigFile :: "string \<Rightarrow> bool" where
  "isConfigFile filePath =
     (let fileName = toLowerCase (basename filePath)
      in list_ex (\<lambda>pattern. includes_str fileName pattern) configPatterns)"

record Stats =
  st_size :: nat
  st_mtime :: nat

record FileMetadata =
  m_language :: string
  m_extension :: string
  m_size :: nat
  m_linesOfCode :: nat
  m_isTest :: bool
  m_isConfig :: bool
  m_lastModified :: nat

text \<open>
  \<open>getFileMetadata\<close> stats the file again; \<open>None\<close> is a failed stat, answered with
  \<open>null\<close>. The tree builder then adds \<open>linesOfCode\<close>, the second argument here.
\<close>

definition getFileMetadata :: "string \<Rightarrow> Stats option \<Rightarrow> nat \<Rightarrow> FileMetadata option" where
  "getFileMetadata filePath stat linesOfCode =
     (case stat of
        None \<Rightarrow> None
      | Some stats \<Rightarrow>
          Some \<lparr>m_language = detectLanguage filePath, m_extension = getFileExtension filePath,
                m_size = st_size stats, m_linesOfCode = linesOfCode,
                m_isTest = isTestFile filePath, m_isConfig = isConfigFile filePath,
                m_lastModified = st_mtime stats\<rparr>)"

section \<open>Tree builder (tree-builder.service.ts)\<close>

datatype node_type = file_node | directory_node

datatype FileTreeNode =
  Node (n_id: string) (n_name: string) (n_type: node_type) (n_path: string)
       (n_relativePath: string) (n_children: "FileTreeNode list option")
       (n_metadata: "FileMetadata option")

text \<open>
  The working copy as the builder meets it. Every entry carries the name \<open>readdir\<close>
  lists it under. \<open>Missing\<close>: \<open>fs.stat\<close> throws. \<open>RegularFile\<close>: the stat inside
  \<open>getFileMetadata\<close> (\<open>None\<close> when it throws) and the outcome of reading the content.
  \<open>Other\<close>: neither a file nor a directory. \<open>Dir\<close>: the entries \<open>readdir\<close> lists;
  \<open>UnreadableDir\<close>: \<open>readdir\<close> throws.
\<close>

datatype fs_entry =
    Missing string
  | RegularFile string "Stats option" "io_error + string"
  | Other string
  | Dir string "fs_entry list"
  | UnreadableDir string

fun entry_name :: "fs_entry \<Rightarrow> string" where
  "entry_name (Missing name) = name"
| "entry_name (RegularFile name stat content) = name"
| "entry_name (Other name) = name"
| "entry_name (Dir name entries) = name"
| "entry_name (UnreadableDir name) = name"

fun is_directory :: "fs_entry \<Rightarrow> bool" where
  "is_directory (Dir nm entries) = True"
| "is_directory (UnreadableDir nm) = True"
| "is_directory e = False"

record BuildOptions =
  bo_excludePatterns :: "string list option"
  bo_maxFileSizeKB :: "int option"
  bo_includeTests :: "bool option"

text \<open>
  What the builder takes from the platform: \<open>localeCompare\<close>, the collation of the
  process's locale, and the ids \<open>generateId('node')\<close> draws (from the clock and random
  bytes), given here per path, with one more for the root node \<open>buildFileTree\<close> returns.
\<close>

record Platform =
  localeCompare :: "string \<Rightarrow> string \<Rightarrow> int"
  generateId :: "string \<Rightarrow> string"
  generateRootId :: string

definition skipDirs :: "string list" where
  "skipDirs = [''node_modules'', ''.git'', ''dist'', ''build'', ''coverage'', ''.next'', ''.nuxt'',
     ''out'', ''vendor'', ''__pycache__'', ''.venv'', ''venv'', ''target'', ''bin'', ''obj'',
     ''.idea'', ''.vscode'']"

definition shouldSkipDirectory :: "string \<Rightarrow> bool" where
  "shouldSkipDirectory dirName = (dirName \<in> set skipDirs)"

text \<open>The two \<open>continue\<close> statements of the loop over the entries.\<close>

definition dropped :: "BuildOptions \<Rightarrow> FileTreeNode \<Rightarrow> bool" where
  "dropped options childNode =
     (n_type childNode = file_node \<and>
      ((case n_metadata childNode of
          None \<Rightarrow> False
        | Some md \<Rightarrow>
            (case bo_maxFileSizeKB options of
               None \<Rightarrow> False
             | Some k \<Rightarrow> k \<noteq> 0 \<and> int (m_size md) > 1024 * k))
       \<or> (bo_includeTests options \<noteq> Some True \<and>
           (case n_metadata childNode of None \<Rightarrow> False | Some md \<Rightarrow> m_isTest md))))"

text \<open>The comparator given to \<open>children.sort\<close>.\<close>

definition compareNodes :: "Platform \<Rightarrow> FileTreeNode \<Rightarrow> FileTreeNode \<Rightarrow> int" where
  "compareNodes pf a b =
     (if n_type a = n_type b then localeCompare pf (n_name a) (n_name b)
      else if n_type a = directory_node then - 1 else 1)"

text \<open>
  \<open>Array.prototype.sort\<close> with a comparator is stable; for a consistent comparator its
  result is the one of this stable insertion sort.
\<close>

fun insert_by :: "('a \<Rightarrow> 'a \<Rightarrow> int) \<Rightarrow> 'a \<Rightarrow> 'a list \<Rightarrow> 'a list" where
  "insert_by cmp x [] = [x]"
| "insert_by cmp x (y # ys) = (if cmp x y \<le> 0 then x # y # ys else y # insert_by cmp x ys)"

definition sort_by :: "('a \<Rightarrow> 'a \<Rightarrow> int) \<Rightarrow> 'a list \<Rightarrow> 'a list" where
  "sort_by cmp xs = foldr (insert_by cmp) xs []"

fun buildTreeRecursive ::
  "Platform \<Rightarrow> BuildOptions \<Rightarrow> string \<Rightarrow> string \<Rightarrow> fs_entry \<Rightarrow> io_error + FileTreeNode" where
  "buildTreeRecursive pf options currentPath rootPath (Missing nm) = Inl IOError"
| "buildTreeRecursive pf options currentPath rootPath (RegularFile nm stat content) =
     (let name = basename currentPath;
          relativePath = relative rootPath currentPath
      in Inr (Node (generateId pf currentPath) name file_node currentPath
               (if relativePath = [] then ''.'' else relativePath) None
               (getFileMetadata currentPath stat (countLines content))))"
| "buildTreeRecursive pf options currentPath rootPath (Other nm) =
     (let name = basename currentPath;
          relativePath = relative rootPath currentPath
      in Inr (Node (generateId pf currentPath) name file_node currentPath
               (if relativePath = [] then ''.'' else relativePath) None None))"
| "buildTreeRecursive pf options currentPath rootPath (UnreadableDir nm) =
     (let name = basename currentPath;
          relativePath = relative rootPath currentPath
      in if shouldSkipDirectory name
         then Inr (Node (generateId pf currentPath) name directory_node currentPath
                    (if relativePath = [] then ''.'' else relativePath) None None)
         else Inl IOError)"
| "buildTreeRecursive pf options currentPath rootPath (Dir nm entries) =
     (let name = basename currentPath;
          relativePath = relative rootPath currentPath
      in if shouldSkipDirectory name
         then Inr (Node (generateId pf currentPath) name directory_node currentPath
                    (if relativePath = [] then ''.'' else relativePath) None None)
         else
           let children =
                 concat (map (\<lambda>entry.
                    case buildTreeRecursive pf options (join currentPath (entry_name entry)) rootPath entry of
                      Inl error \<Rightarrow> []
                    | Inr childNode \<Rightarrow> if dropped options childNode then [] else [childNode])
                  entries)
           in Inr (Node (generateId pf currentPath) name directory_node currentPath
                    (if relativePath = [] then ''.'' else relativePath)
                    (Some (sort_by (compareNodes pf) children)) None))"

text \<open>\<open>buildFileTree\<close>: the root node is rebuilt around the children of the recursion's.\<close>

definition buildFileTree ::
  "Platform \<Rightarrow> BuildOptions \<Rightarrow> string \<Rightarrow> fs_entry \<Rightarrow> io_error + FileTreeNode" where
  "buildFileTree pf options rootPath rootEntry =
     try_catch
       (let rootName = basename rootPath
        in case buildTreeRecursive pf options rootPath rootPath rootEntry of
             Inl e \<Rightarrow> Inl e
           | Inr tree \<Rightarrow>
               Inr (Node (generateRootId pf) rootName directory_node rootPath [] (n_children tree) None))
       (\<lambda>error. Inl error)"

text \<open>All nodes of a tree, the root first.\<close>

fun nodes :: "FileTreeNode \<Rightarrow> FileTreeNode list" where
  "nodes (Node i nm ty p rel children md) =
     Node i nm ty p rel children md #
     (case children of None \<Rightarrow> [] | Some cs \<Rightarrow> concat (map nodes cs))"

text \<open>
  \<open>localeCompare\<close> is the collation of the host, not code of the repository. The sort is
  well defined when it is a consistent comparator: \<open>\<le> 0\<close> is transitive and total.
\<close>

definition consistent_comparator :: "('a \<Rightarrow> 'a \<Rightarrow> int) \<Rightarrow> bool" where
  "consistent_comparator cmp =
     ((\<forall>a b c. cmp a b \<le> 0 \<and> cmp b c \<le> 0 \<longrightarrow> cmp a c \<le> 0)
      \<and> (\<forall>a b. cmp a b \<le> 0 \<or> cmp b a \<le> 0))"

text \<open>A concrete collation for the examples: code-unit order of the lower-cased names.\<close>

definition char_codes :: "string \<Rightarrow> nat list" where
  "char_codes s = map of_char s"

definition caseless_compare :: "string \<Rightarrow> string \<Rightarrow> int" where
  "caseless_compare a b =
     (let x = char_codes (toLowerCase a); y = char_codes (toLowerCase b)
      in if x < y then - 1 else if x = y then 0 else 1)"

definition demo_platform :: Platform where
  "demo_platform = \<lparr>localeCompare = caseless_compare, generateId = (\<lambda>p. ''node:'' @ p),
     generateRootId = ''node:root''\<rparr>"

definition demo_build_options :: BuildOptions where
  "demo_build_options = \<lparr>bo_excludePatterns = None, bo_maxFileSizeKB = Some 1000,
     bo_includeTests = Some True\<rparr>"

text \<open>The fixture of the specification: \<open>a.ts\<close>, \<open>b.py\<close> and \<open>node_modules/ignored.js\<close>.\<close>

definition demo_working_copy :: fs_entry where
  "demo_working_copy =
     Dir ''clone_1''
       [RegularFile ''b.py'' (Some \<lparr>st_size = 9, st_mtime = 5\<rparr>) (Inr ''import os''),
        Dir ''node_modules''
          [RegularFile ''ignored.js'' (Some \<lparr>st_size = 1, st_mtime = 5\<rparr>) (Inr ''x'')],
        RegularFile ''a.ts'' (Some \<lparr>st_size = 9, st_mtime = 5\<rparr>) (Inr ''export {}'')]"

definition demo_root :: string where
  "demo_root = ''/tmp/repos/clone_1''"

definition node_names :: "io_error + FileTreeNode \<Rightarrow> string list" where
  "node_names r = (case r of Inl e \<Rightarrow> [] | Inr t \<Rightarrow> map n_name (nodes t))"

definition root_children :: "io_error + FileTreeNode \<Rightarrow> FileTreeNode list" where
  "root_children r =
     (case r of
        Inl e \<Rightarrow> []
      | Inr t \<Rightarrow> (case n_children t of None \<Rightarrow> [] | Some cs \<Rightarrow> cs))"

definition demo_tree :: FileTreeNode where
  "demo_tree = projr (buildFileTree demo_platform demo_build_options demo_root demo_working_copy)"

definition demo_children :: "FileTreeNode list" where
  "demo_children =
     [Node ''node:/tmp/repos/clone_1/node_modules'' ''node_modules'' directory_node
        ''/tmp/repos/clone_1/node_modules'' ''node_modules'' None None,
      Node ''node:/tmp/repos/clone_1/a.ts'' ''a.ts'' file_node ''/tmp/repos/clone_1/a.ts'' ''a.ts'' None
        (Some \<lparr>m_language = ''typescript'', m_extension = ''.ts'', m_size = 9, m_linesOfCode = 1,
                m_isTest = False, m_isConfig = False, m_lastModified = 5\<rparr>),
      Node ''node:/tmp/repos/clone_1/b.py'' ''b.py'' file_node ''/tmp/repos/clone_1/b.py'' ''b.py'' None
        (Some \<lparr>m_language = ''python'', m_extension = ''.py'', m_size = 9, m_linesOfCode = 1,
                m_isTest = False, m_isConfig = False, m_lastModified = 5\<rparr>)]"

section \<open>Metrics (metrics.service.ts), the stored file tree and GET /analysis/:id/tree\<close>

text \<open>
  A JavaScript number as far as the statistics need it: a finite value, \<open>NaN\<close> or an
  infinity. \<open>js_divide\<close> is \<open>/\<close> on two integers (\<open>0/0\<close> is \<open>NaN\<close>, \<open>x/0\<close> an
  infinity); a finite quotient is kept exact. \<open>Math_round\<close> rounds half up and passes
  \<open>NaN\<close> and the infinities through.
\<close>

datatype jsnum = Num rat | NaN | PosInfinity | NegInfinity

definition js_divide :: "int \<Rightarrow> int \<Rightarrow> jsnum" where
  "js_divide a b =
     (if b = 0 then (if a = 0 then NaN else if 0 < a then PosInfinity else NegInfinity)
      else Num (of_int a / of_int b))"

definition Math_round :: "jsnum \<Rightarrow> jsnum" where
  "Math_round x = (case x of Num q \<Rightarrow> Num (of_int \<lfloor>q + 1 / 2\<rfloor>) | _ \<Rightarrow> x)"

record SizeBreakdown =
  totalSize :: nat
  averageFileSize :: jsnum

record FileTreeStatistics =
  totalFiles :: nat
  totalDirectories :: nat
  totalLines :: nat
  languageBreakdown :: "string \<rightharpoonup> nat"
  sizeBreakdown :: SizeBreakdown

definition initial_stats :: FileTreeStatistics where
  "initial_stats = \<lparr>totalFiles = 0, totalDirectories = 0, totalLines = 0,
     languageBreakdown = Map.empty, sizeBreakdown = \<lparr>totalSize = 0, averageFileSize = Num 0\<rparr>\<rparr>"

definition count_metadata :: "FileMetadata \<Rightarrow> FileTreeStatistics \<Rightarrow> FileTreeStatistics" where
  "count_metadata md stats =
     stats\<lparr>totalLines := totalLines stats + m_linesOfCode md,
           languageBreakdown :=
             (languageBreakdown stats)(m_language md \<mapsto>
               (case languageBreakdown stats (m_language md) of None \<Rightarrow> 1 | Some n \<Rightarrow> n + 1)),
           sizeBreakdown :=
             (sizeBreakdown stats)\<lparr>totalSize := totalSize (sizeBreakdown stats) + m_size md\<rparr>\<rparr>"

fun traverseAndCount :: "FileTreeNode \<Rightarrow> FileTreeStatistics \<Rightarrow> FileTreeStatistics" where
  "traverseAndCount (Node i nm ty p rel children metadata) stats =
     (case ty of
        directory_node \<Rightarrow>
          (let stats1 = stats\<lparr>totalDirectories := totalDirectories stats + 1\<rparr>
           in case children of
                None \<Rightarrow> stats1
              | Some cs \<Rightarrow> fold traverseAndCount cs stats1)
      | file_node \<Rightarrow>
          (let stats1 = stats\<lparr>totalFiles := totalFiles stats + 1\<rparr>
           in case metadata of
                None \<Rightarrow> stats1
              | Some md \<Rightarrow> count_metadata md stats1))"

definition calculateMetrics :: "FileTreeNode \<Rightarrow> FileTreeStatistics" where
  "calculateMetrics tree =
     (let stats = traverseAndCount tree initial_stats
      in if totalFiles stats > 0
         then stats\<lparr>sizeBreakdown := (sizeBreakdown stats)
                \<lparr>averageFileSize :=
                   Math_round (js_divide (int (totalSize (sizeBreakdown stats))) (int (totalFiles stats)))\<rparr>\<rparr>
         else stats)"

text \<open>
  The file nodes of a tree that the traversal reaches (it descends into directory nodes
  only; a built tree has no other file nodes), and the size a file node adds to
  \<open>totalSize\<close>.
\<close>

fun file_nodes :: "FileTreeNode \<Rightarrow> FileTreeNode list" where
  "file_nodes (Node i nm ty p rel children md) =
     (case ty of
        file_node \<Rightarrow> [Node i nm ty p rel children md]
      | directory_node \<Rightarrow> (case children of None \<Rightarrow> [] | Some cs \<Rightarrow> concat (map file_nodes cs)))"

definition node_size :: "FileTreeNode \<Rightarrow> nat" where
  "node_size d = (case n_metadata d of None \<Rightarrow> 0 | Some md \<Rightarrow> m_size md)"

text \<open>A row of the FileTree table (file-tree.repository.ts); the average is not stored.\<close>

record FileTreeRow =
  ft_analysisId :: string
  ft_tree :: FileTreeNode
  ft_totalFiles :: nat
  ft_totalDirectories :: nat
  ft_totalLines :: nat
  ft_totalSize :: nat
  ft_languageBreakdown :: "string \<rightharpoonup> nat"

type_synonym filetree_table = "string \<rightharpoonup> FileTreeRow"

text \<open>\<open>fileTreeRepository.save\<close>: \<open>create\<close> throws when the analysis already has a tree.\<close>

definition save_tree ::
  "string \<Rightarrow> FileTreeNode \<Rightarrow> FileTreeStatistics \<Rightarrow> filetree_table \<Rightarrow> db_error + filetree_table" where
  "save_tree analysisId tree statistics tbl =
     try_catch
       (case tbl analysisId of
          Some r \<Rightarrow> Inl UniqueViolation
        | None \<Rightarrow>
            Inr (tbl(analysisId \<mapsto>
              \<lparr>ft_analysisId = analysisId, ft_tree = tree, ft_totalFiles = totalFiles statistics,
               ft_totalDirectories = totalDirectories statistics, ft_totalLines = totalLines statistics,
               ft_totalSize = totalSize (sizeBreakdown statistics),
               ft_languageBreakdown = languageBreakdown statistics\<rparr>)))
       (\<lambda>error. Inl error)"

datatype http_error = NotFoundError string

record TreeBody =
  tb_root :: FileTreeNode
  tb_statistics :: FileTreeStatistics

datatype tree_reply = TreeNotFound | TreeFound TreeBody

text \<open>
  The handler of \<open>GET /analysis/:id/tree\<close>: \<open>findById\<close> joins the record with its file
  tree; the average is recomputed from the stored totals, without a guard.
\<close>

definition get_tree :: "analysis_table \<Rightarrow> filetree_table \<Rightarrow> string \<Rightarrow> http_error + tree_reply HttpResponse" where
  "get_tree analyses trees ident =
     (case analyses ident of
        None \<Rightarrow> Inl (NotFoundError ''Analysis not found'')
      | Some analysis \<Rightarrow>
          (case trees ident of
             None \<Rightarrow> Inr \<lparr>statusCode = 404, body = TreeNotFound\<rparr>
           | Some fileTree \<Rightarrow>
               Inr \<lparr>statusCode = 200,
                    body = TreeFound
                      \<lparr>tb_root = ft_tree fileTree,
                       tb_statistics =
                         \<lparr>totalFiles = ft_totalFiles fileTree,
                          totalDirectories = ft_totalDirectories fileTree,
                          totalLines = ft_totalLines fileTree,
                          languageBreakdown = ft_languageBreakdown fileTree,
                          sizeBreakdown =
                            \<lparr>totalSize = ft_totalSize fileTree,
                             averageFileSize =
                               Math_round (js_divide (int (ft_totalSize fileTree))
                                                     (int (ft_totalFiles fileTree)))\<rparr>\<rparr>\<rparr>\<rparr>))"

text \<open>The average file size a client reads from a reply; \<open>None\<close> when there is no tree.\<close>

definition reply_average :: "http_error + tree_reply HttpResponse \<Rightarrow> jsnum option" where
  "reply_average r =
     (case r of
        Inl e \<Rightarrow> None
      | Inr resp \<Rightarrow>
          (case body resp of
             TreeNotFound \<Rightarrow> None
           | TreeFound b \<Rightarrow> Some (averageFileSize (sizeBreakdown (tb_statistics b)))))"

text \<open>An empty repository: the root directory with no entries.\<close>

definition empty_tree :: FileTreeNode where
  "empty_tree = Node ''node:root'' ''clone_2'' directory_node ''/tmp/repos/clone_2'' [] (Some []) None"

definition stored_empty_tree :: "db_error + filetree_table" where
  "stored_empty_tree = save_tree ''a1'' empty_tree (calculateMetrics empty_tree) Map.empty"

definition demo_analyses :: analysis_table where
  "demo_analyses = projr (create 0 demo_create Map.empty)"

definition demo_trees :: filetree_table where
  "demo_trees = projr stored_empty_tree"

section \<open>Analysis worker (analysis.worker.ts, clone.service.ts)\<close>

record AnalysisJobData =
  jd_analysisId :: string
  jd_repositoryUrl :: string
  jd_branch :: string
  jd_options :: AnalysisOptions

record JobProgress =
  currentStep :: string
  percentage :: nat
  stepsCompleted :: "string list"
  stepsTotal :: nat

record JobResult =
  jr_analysisId :: string
  jr_status :: string
  jr_completedAt :: nat

text \<open>
  Everything a job can change: the three tables, the working copies on disk (by path),
  the job's progress value in the queue, and the clock read by \<open>new Date()\<close>.
\<close>

record World =
  w_analyses :: analysis_table
  w_trees :: filetree_table
  w_parsedFiles :: "ParsedFileRow list"
  w_disk :: "string \<rightharpoonup> fs_entry"
  w_progress :: "JobProgress option"
  w_now :: nat

text \<open>
  What the job gets from outside, each call returning a value or throwing a message:
  the URL parser, the GitHub API, \<open>git clone\<close> (the fresh path and the tree it
  materialises), \<open>fs.remove\<close>, the queue's \<open>updateProgress\<close>, the file scanner's
  list of files, the parser environment and the platform.
\<close>

record Services =
  sv_parseGitHubUrl :: "string \<Rightarrow> (string \<times> string) option"
  sv_fetchRepoMetadata :: "string \<Rightarrow> string \<Rightarrow> string + string"
  sv_getCommitSha :: "string \<Rightarrow> string \<Rightarrow> string \<Rightarrow> string + string"
  sv_gitClone :: "string \<Rightarrow> string \<Rightarrow> string + (string \<times> fs_entry)"
  sv_remove :: "string \<Rightarrow> bool"
  sv_updateProgress :: "JobProgress \<Rightarrow> string option"
  sv_scanDirectory :: "string \<Rightarrow> string list"
  sv_parser :: ParserEnv
  sv_platform :: Platform

text \<open>
  A step of the job: it changes the world and returns a value or throws \<open>error.message\<close>.
  What a step changed before it threw stays changed.
\<close>

type_synonym 'a job = "World \<Rightarrow> (string + 'a) \<times> World"

definition returnJ :: "'a \<Rightarrow> 'a job" where
  "returnJ v w = (Inr v, w)"

definition throwJ :: "string \<Rightarrow> 'a job" where
  "throwJ message w = (Inl message, w)"

definition bindJ :: "'a job \<Rightarrow> ('a \<Rightarrow> 'b job) \<Rightarrow> 'b job" where
  "bindJ m f w =
     (case m w of (Inl e, w') \<Rightarrow> (Inl e, w') | (Inr v, w') \<Rightarrow> f v w')"

definition try_catchJ :: "'a job \<Rightarrow> (string \<Rightarrow> 'a job) \<Rightarrow> 'a job" where
  "try_catchJ m handler w =
     (case m w of (Inl e, w') \<Rightarrow> handler e w' | (Inr v, w') \<Rightarrow> (Inr v, w'))"

definition db_message :: "db_error \<Rightarrow> string" where
  "db_message e =
     (case e of
        RecordNotFound \<Rightarrow> ''Record to update not found''
      | UniqueViolation \<Rightarrow> ''Unique constraint failed''
      | DbFailure \<Rightarrow> ''Database unavailable'')"

definition updateStatusJ :: "string \<Rightarrow> JobStatus \<Rightarrow> string option \<Rightarrow> unit job" where
  "updateStatusJ ident status error w =
     (case updateStatus (w_now w) ident status error (w_analyses w) of
             Inl e \<Rightarrow> (Inl (db_message e), w)
           | Inr db \<Rightarrow> (Inr (), w\<lparr>w_analyses := db, w_now := w_now w + 1\<rparr>))"

definition updateCommitShaJ :: "string \<Rightarrow> string \<Rightarrow> unit job" where
  "updateCommitShaJ ident commitSha w =
     (case w_analyses w ident of
             None \<Rightarrow> (Inl (db_message RecordNotFound), w)
           | Some r \<Rightarrow> (Inr (), w\<lparr>w_analyses := (w_analyses w)(ident \<mapsto> r\<lparr>a_commitSha := Some commitSha\<rparr>)\<rparr>))"

definition updateProgressJ :: "Services \<Rightarrow> JobProgress \<Rightarrow> unit job" where
  "updateProgressJ sv progress w =
     (case sv_updateProgress sv progress of
             Some message \<Rightarrow> (Inl message, w)
           | None \<Rightarrow> (Inr (), w\<lparr>w_progress := Some progress\<rparr>))"

definition serviceJ :: "string + 'a \<Rightarrow> 'a job" where
  "serviceJ outcome w = (outcome, w)"

record CloneResult =
  cr_localPath :: string
  cr_branch :: string
  cr_clonedAt :: nat

text \<open>
  \<open>cloneRepository\<close>: on success the working copy exists at the fresh path; on failure
  the partial directory is removed and \<open>Failed to clone repository\<close> is thrown.
\<close>

definition cloneRepository :: "Services \<Rightarrow> string \<Rightarrow> string \<Rightarrow> CloneResult job" where
  "cloneRepository sv repoUrl branch w =
     (case sv_gitClone sv repoUrl branch of
             Inl e \<Rightarrow> (Inl ''Failed to clone repository'', w)
           | Inr (localPath, content) \<Rightarrow>
               (Inr \<lparr>cr_localPath = localPath, cr_branch = branch, cr_clonedAt = w_now w\<rparr>,
                w\<lparr>w_disk := (w_disk w)(localPath \<mapsto> content)\<rparr>))"

text \<open>\<open>deleteRepository\<close>: removes the directory, or throws when \<open>fs.remove\<close> fails.\<close>

definition deleteRepository :: "Services \<Rightarrow> string \<Rightarrow> unit job" where
  "deleteRepository sv localPath w =
     (if sv_remove sv localPath
           then (Inr (), w\<lparr>w_disk := (w_disk w)(localPath := None)\<rparr>)
           else (Inl ''Failed to delete repository'', w))"

definition buildFileTreeJ :: "Services \<Rightarrow> string \<Rightarrow> BuildOptions \<Rightarrow> FileTreeNode job" where
  "buildFileTreeJ sv localPath options w =
     (case buildFileTree (sv_platform sv) options localPath
                 (case w_disk w localPath of None \<Rightarrow> Missing (basename localPath) | Some e \<Rightarrow> e) of
             Inl e \<Rightarrow> (Inl ''Error building file tree'', w)
           | Inr tree \<Rightarrow> (Inr tree, w))"

definition saveTreeJ :: "string \<Rightarrow> FileTreeNode \<Rightarrow> FileTreeStatistics \<Rightarrow> unit job" where
  "saveTreeJ ident tree statistics w =
     (case save_tree ident tree statistics (w_trees w) of
             Inl e \<Rightarrow> (Inl (db_message e), w)
           | Inr tbl \<Rightarrow> (Inr (), w\<lparr>w_trees := tbl\<rparr>))"

definition parseFilesJ :: "Services \<Rightarrow> string list \<Rightarrow> ParsedFile list job" where
  "parseFilesJ sv filesToParse w =
     (case parseFilesParallel (sv_parser sv) worker_parser_options filesToParse of
             Inl e \<Rightarrow> (Inl ''Error parsing files'', w)
           | Inr parsedFiles \<Rightarrow> (Inr parsedFiles, w))"

definition saveParsedFilesJ :: "string \<Rightarrow> ParsedFile list \<Rightarrow> unit job" where
  "saveParsedFilesJ ident files w =
     ((Inr (), w\<lparr>w_parsedFiles := saveParsedFiles ident files (w_parsedFiles w)\<rparr>))"

definition nowJ :: "nat job" where
  "nowJ w = (Inr (w_now w), w)"

definition progress :: "string \<Rightarrow> nat \<Rightarrow> string list \<Rightarrow> JobProgress" where
  "progress step pct done = \<lparr>currentStep = step, percentage = pct, stepsCompleted = done, stepsTotal = 6\<rparr>"

definition shouldParse :: "ParserEnv \<Rightarrow> string \<Rightarrow> bool" where
  "shouldParse env filePath = isSupportedForParsing (pe_detectLanguage env filePath)"

definition maxFilesToParse :: nat where
  "maxFilesToParse = 100"

text \<open>
  The files given to the parser: the scanned files, made absolute, that the parser
  service accepts, cut to the first \<open>maxFilesToParse\<close>.
\<close>

definition filesToParse :: "Services \<Rightarrow> string \<Rightarrow> string list" where
  "filesToParse sv localPath =
     take maxFilesToParse
       (filter (shouldParse (sv_parser sv)) (map (join localPath) (sv_scanDirectory sv localPath)))"

definition relativeParsedFiles :: "string \<Rightarrow> ParsedFile list \<Rightarrow> ParsedFile list" where
  "relativeParsedFiles localPath parsedFiles =
     map (\<lambda>pf. pf\<lparr>p_path := relative localPath (p_path pf)\<rparr>) parsedFiles"

text \<open>
  The body of the \<open>try\<close> block of \<open>processAnalysisJob\<close>, statement by statement, for
  the destructured job data \<open>analysisId\<close>, \<open>repositoryUrl\<close>, \<open>branch\<close>, \<open>options\<close>.
\<close>

definition pipeline :: "Services \<Rightarrow> string \<Rightarrow> string \<Rightarrow> string \<Rightarrow> AnalysisOptions \<Rightarrow> JobResult job" where
  "pipeline sv analysisId repositoryUrl branch options =
      bindJ (updateStatusJ analysisId processing None) (\<lambda>_.
      bindJ (updateProgressJ sv (progress ''Starting analysis'' 0 [])) (\<lambda>_.
      (case sv_parseGitHubUrl sv repositoryUrl of
         None \<Rightarrow> throwJ ''Invalid GitHub repository URL''
       | Some (owner, name) \<Rightarrow>
      bindJ (updateProgressJ sv (progress ''Fetching repository metadata'' 10 [])) (\<lambda>_.
      bindJ (serviceJ (sv_fetchRepoMetadata sv owner name)) (\<lambda>defaultBranch.
      bindJ (serviceJ (sv_getCommitSha sv owner name (if branch \<noteq> [] then branch else defaultBranch))) (\<lambda>commitSha.
      bindJ (updateCommitShaJ analysisId commitSha) (\<lambda>_.
      bindJ (updateProgressJ sv (progress ''Cloning repository'' 20 [''Metadata fetched''])) (\<lambda>_.
      bindJ (cloneRepository sv repositoryUrl (if branch \<noteq> [] then branch else defaultBranch)) (\<lambda>cloneResult.
      bindJ (updateProgressJ sv (progress ''Building file tree'' 40
               [''Metadata fetched'', ''Repository cloned''])) (\<lambda>_.
      bindJ (buildFileTreeJ sv (cr_localPath cloneResult)
               \<lparr>bo_excludePatterns = excludePatterns options,
                bo_maxFileSizeKB = Some (maxFileSizeKB options),
                bo_includeTests = Some (includeTests options)\<rparr>) (\<lambda>fileTree.
      bindJ (updateProgressJ sv (progress ''Calculating metrics'' 50
               [''Metadata fetched'', ''Repository cloned'', ''File tree built''])) (\<lambda>_.
      bindJ (saveTreeJ analysisId fileTree (calculateMetrics fileTree)) (\<lambda>_.
      bindJ (updateProgressJ sv (progress ''Parsing files'' 65
               [''Metadata fetched'', ''Repository cloned'', ''File tree built'', ''Metrics calculated''])) (\<lambda>_.
      bindJ (parseFilesJ sv (filesToParse sv (cr_localPath cloneResult))) (\<lambda>parsedFiles.
      bindJ (updateProgressJ sv (progress ''Saving parsed data'' 85
               [''Metadata fetched'', ''Repository cloned'', ''File tree built'', ''Metrics calculated'',
                ''Files parsed''])) (\<lambda>_.
      bindJ (if parsedFiles \<noteq> []
             then saveParsedFilesJ analysisId (relativeParsedFiles (cr_localPath cloneResult) parsedFiles)
             else returnJ ()) (\<lambda>_.
      bindJ (deleteRepository sv (cr_localPath cloneResult)) (\<lambda>_.
      bindJ (updateProgressJ sv (progress ''Analysis complete'' 100
               [''Metadata fetched'', ''Repository cloned'', ''File tree built'', ''Metrics calculated'',
                ''Files parsed'', ''Data saved''])) (\<lambda>_.
      bindJ (updateStatusJ analysisId completed None) (\<lambda>_.
      bindJ nowJ (\<lambda>now.
      returnJ \<lparr>jr_analysisId = analysisId, jr_status = ''completed'', jr_completedAt = now\<rparr>
      )))))))))))))))))))))"

text \<open>
  \<open>processAnalysisJob\<close>: the catch block marks the record failed with the error's
  message and rethrows. It does nothing else.
\<close>

definition processAnalysisJob :: "Services \<Rightarrow> AnalysisJobData \<Rightarrow> JobResult job" where
  "processAnalysisJob sv job =
     try_catchJ (pipeline sv (jd_analysisId job) (jd_repositoryUrl job) (jd_branch job) (jd_options job))
       (\<lambda>error. bindJ (updateStatusJ (jd_analysisId job) failed (Some error)) (\<lambda>_. throwJ error))"

text \<open>
  What is left of a run: whether it returned, the status of the record, and whether
  the working copy at \<open>localPath\<close> still exists.
\<close>

definition job_outcome :: "(string + JobResult) \<times> World \<Rightarrow> string \<Rightarrow> string \<Rightarrow> bool \<times> JobStatus option \<times> bool" where
  "job_outcome run ident localPath =
     (isl (fst run) = False,
      map_option a_status (w_analyses (snd run) ident),
      w_disk (snd run) localPath \<noteq> None)"

definition demo_job :: AnalysisJobData where
  "demo_job = \<lparr>jd_analysisId = ''a1'', jd_repositoryUrl = ''https://github.com/acme/widgets'',
     jd_branch = ''main'', jd_options = demo_options\<rparr>"

definition demo_world :: World where
  "demo_world = \<lparr>w_analyses = demo_analyses, w_trees = Map.empty, w_parsedFiles = [],
     w_disk = Map.empty, w_progress = None, w_now = 1\<rparr>"

definition demo_parser_env :: ParserEnv where
  "demo_parser_env =
     \<lparr>pe_stat = (\<lambda>p. Inr 9),
      pe_readFile = (\<lambda>p. Inr ''x''),
      pe_detectLanguage = detectLanguage,
      pe_tsParse = (\<lambda>content. Inr \<lparr>x_imports = [], x_exports = [], x_functions = [], x_classes = []\<rparr>),
      pe_pyExtract = (\<lambda>content. Inr \<lparr>x_imports = [], x_exports = [], x_functions = [], x_classes = []\<rparr>),
      pe_jsParseFile = (\<lambda>p. Inr (empty_parsed p ''javascript''))\<rparr>"

text \<open>
  Two runs of the same job. In the first every service succeeds. In the second the
  clone succeeds but the cloned directory cannot be listed, so \<open>buildFileTree\<close> throws.
\<close>

definition good_services :: Services where
  "good_services =
     \<lparr>sv_parseGitHubUrl = (\<lambda>url. Some (''acme'', ''widgets'')),
      sv_fetchRepoMetadata = (\<lambda>owner name. Inr ''main''),
      sv_getCommitSha = (\<lambda>owner name branch. Inr ''c0ffee''),
      sv_gitClone = (\<lambda>url branch. Inr (demo_root,
         Dir ''clone_1'' [RegularFile ''a.ts'' (Some \<lparr>st_size = 9, st_mtime = 5\<rparr>) (Inr ''export {}'')])),
      sv_remove = (\<lambda>p. True),
      sv_updateProgress = (\<lambda>p. None),
      sv_scanDirectory = (\<lambda>p. [''a.ts'']),
      sv_parser = demo_parser_env,
      sv_platform = demo_platform\<rparr>"

definition unlistable_services :: Services where
  "unlistable_services =
     good_services\<lparr>sv_gitClone := (\<lambda>url branch. Inr (demo_root, UnreadableDir ''clone_1''))\<rparr>"

section \<open>Python parser: classes and their methods (python.parser.ts)\<close>

subsection \<open>Regular expressions\<close>

text \<open>
  The regular expressions of the parser, as data, with the backtracking semantics of
  JavaScript on ASCII text: \<open>\s\<close> is \<open>Space\<close>, \<open>\w\<close> is \<open>Word\<close>, \<open>[^...]\<close> is
  \<open>Except\<close>, \<open>^\<close> is \<open>Bol\<close> (its argument says whether the \<open>m\<close> flag is set),
  \<open>(...)\<close> with its number is \<open>Cap\<close>; \<open>*\<close>, \<open>+\<close> and \<open>?\<close> are greedy.
\<close>

datatype rx =
    Eps
  | Chr char
  | Space
  | Word
  | Except "char list"
  | Bol bool
  | Cat rx rx
  | Opt rx
  | Star rx
  | Plus rx
  | Cap nat rx

fun lit :: "string \<Rightarrow> rx" where
  "lit [] = Eps"
| "lit (c # cs) = Cat (Chr c) (lit cs)"

fun cats :: "rx list \<Rightarrow> rx" where
  "cats [] = Eps"
| "cats (r # rs) = Cat r (cats rs)"

definition is_space :: "char \<Rightarrow> bool" where
  "is_space c = ((of_char c :: nat) \<in> {9, 10, 11, 12, 13, 32})"

definition is_word :: "char \<Rightarrow> bool" where
  "is_word c =
     (let n = (of_char c :: nat)
      in (48 \<le> n \<and> n \<le> 57) \<or> (65 \<le> n \<and> n \<le> 90) \<or> (97 \<le> n \<and> n \<le> 122) \<or> n = 95)"

definition is_line_terminator :: "char \<Rightarrow> bool" where
  "is_line_terminator c = ((of_char c :: nat) \<in> {10, 13})"

text \<open>
  A matcher state: the position, the character before it, the text from it on, and
  the captures made so far (the latest first).
\<close>

record mstate =
  ms_pos :: nat
  ms_prev :: "char option"
  ms_rest :: string
  ms_caps :: "(nat \<times> string) list"

definition step_if :: "(char \<Rightarrow> bool) \<Rightarrow> mstate \<Rightarrow> mstate list" where
  "step_if ok st =
     (case ms_rest st of
        [] \<Rightarrow> []
      | x # xs \<Rightarrow>
          if ok x then [st\<lparr>ms_pos := ms_pos st + 1, ms_prev := Some x, ms_rest := xs\<rparr>] else [])"

text \<open>
  Greedy iteration: first one more round of the body (a round that consumes nothing is
  rejected), then the end of the loop. The fuel is the length of the remaining text,
  which bounds the number of rounds.
\<close>

fun star :: "nat \<Rightarrow> (mstate \<Rightarrow> mstate list) \<Rightarrow> mstate \<Rightarrow> mstate list" where
  "star 0 m st = [st]"
| "star (Suc n) m st =
     concat (map (\<lambda>st'. if ms_pos st' > ms_pos st then star n m st' else []) (m st)) @ [st]"

text \<open>All ways to match, in the order a backtracking matcher tries them.\<close>

primrec run :: "rx \<Rightarrow> mstate \<Rightarrow> mstate list" where
  "run Eps = (\<lambda>st. [st])"
| "run (Chr c) = step_if (\<lambda>x. x = c)"
| "run Space = step_if is_space"
| "run Word = step_if is_word"
| "run (Except cs) = step_if (\<lambda>x. x \<notin> set cs)"
| "run (Bol multiline) =
     (\<lambda>st. case ms_prev st of
              None \<Rightarrow> [st]
            | Some p \<Rightarrow> if multiline \<and> is_line_terminator p then [st] else [])"
| "run (Cat a b) = (\<lambda>st. concat (map (run b) (run a st)))"
| "run (Opt a) = (\<lambda>st. run a st @ [st])"
| "run (Star a) = (\<lambda>st. star (length (ms_rest st)) (run a) st)"
| "run (Plus a) = (\<lambda>st. concat (map (\<lambda>st'. star (length (ms_rest st')) (run a) st') (run a st)))"
| "run (Cap n a) =
     (\<lambda>st. map (\<lambda>st'. st'\<lparr>ms_caps := (n, take (ms_pos st' - ms_pos st) (ms_rest st)) # ms_caps st'\<rparr>)
              (run a st))"

text \<open>The result of \<open>exec\<close>: \<open>match.index\<close>, the matched text, the groups, and the state after it.\<close>

record rmatch =
  rm_index :: nat
  rm_text :: string
  rm_groups :: "(nat \<times> string) list"
  rm_after :: mstate

definition group :: "rmatch \<Rightarrow> nat \<Rightarrow> string option" where
  "group m n = map_of (rm_groups m) n"

definition group_text :: "rmatch \<Rightarrow> nat \<Rightarrow> string" where
  "group_text m n = (case group m n of None \<Rightarrow> [] | Some t \<Rightarrow> t)"

text \<open>
  \<open>regex.exec(content)\<close> from the state at \<open>lastIndex\<close>: the first position, from there
  on, at which the expression matches, with the first way to match it.
\<close>

fun exec_from :: "rx \<Rightarrow> nat \<Rightarrow> char option \<Rightarrow> string \<Rightarrow> rmatch option" where
  "exec_from r i prev [] =
     (case run r \<lparr>ms_pos = i, ms_prev = prev, ms_rest = [], ms_caps = []\<rparr> of
        [] \<Rightarrow> None
      | st # _ \<Rightarrow> Some \<lparr>rm_index = i, rm_text = [], rm_groups = ms_caps st, rm_after = st\<rparr>)"
| "exec_from r i prev (x # xs) =
     (case run r \<lparr>ms_pos = i, ms_prev = prev, ms_rest = x # xs, ms_caps = []\<rparr> of
        [] \<Rightarrow> exec_from r (i + 1) (Some x) xs
      | st # _ \<Rightarrow>
          Some \<lparr>rm_index = i, rm_text = take (ms_pos st - i) (x # xs), rm_groups = ms_caps st,
                rm_after = st\<rparr>)"

definition exec_at :: "rx \<Rightarrow> mstate \<Rightarrow> rmatch option" where
  "exec_at r st = exec_from r (ms_pos st) (ms_prev st) (ms_rest st)"

definition exec_start :: "rx \<Rightarrow> string \<Rightarrow> rmatch option" where
  "exec_start r s = exec_from r 0 None s"

text \<open>
  The loop \<open>while ((match = regex.exec(content)) !== null)\<close> of a global expression:
  every \<open>exec\<close> resumes at the end of the previous match. A match that consumes nothing
  would be found again for ever; the fuel then runs out and the result is \<open>None\<close>.
\<close>

fun exec_loop :: "nat \<Rightarrow> rx \<Rightarrow> mstate \<Rightarrow> rmatch list option" where
  "exec_loop 0 r st = None"
| "exec_loop (Suc n) r st =
     (case exec_at r st of
        None \<Rightarrow> Some []
      | Some m \<Rightarrow> map_option ((#) m) (exec_loop n r (rm_after m)))"

definition all_matches :: "rx \<Rightarrow> string \<Rightarrow> rmatch list option" where
  "all_matches r content =
     exec_loop (length content + 2) r \<lparr>ms_pos = 0, ms_prev = None, ms_rest = content, ms_caps = []\<rparr>"

subsection \<open>String helpers\<close>

definition trim :: "string \<Rightarrow> string" where
  "trim s = rev (dropWhile is_space (rev (dropWhile is_space s)))"

definition endsWith :: "string \<Rightarrow> string \<Rightarrow> bool" where
  "endsWith s suf = (length suf \<le> length s \<and> drop (length s - length suf) s = suf)"

fun indexOf :: "string \<Rightarrow> string \<Rightarrow> nat option" where
  "indexOf [] pat = (if pat = [] then Some 0 else None)"
| "indexOf (c # cs) pat =
     (if startsWith (c # cs) pat then Some 0 else map_option Suc (indexOf cs pat))"

definition substring :: "string \<Rightarrow> nat \<Rightarrow> nat \<Rightarrow> string" where
  "substring s a b = take (max a b - min a b) (drop (min a b) s)"

fun join_lines :: "string list \<Rightarrow> string" where
  "join_lines [] = []"
| "join_lines [l] = l"
| "join_lines (l # ls) = l @ [LF] @ join_lines ls"

text \<open>\<open>content.substring(0, position).split('\n').length\<close>.\<close>

definition line_of :: "string \<Rightarrow> nat \<Rightarrow> nat" where
  "line_of content position = length (split_char LF (take position content))"

subsection \<open>The expressions of the parser\<close>

text \<open>\<open>/^(\s+)(async\s+)?def\s+(\w+)\s*\(([^)]*)\)\s*(?:->\s*([^:]+))?:/gm\<close>\<close>

definition methodRegex :: rx where
  "methodRegex =
     cats [Bol True, Cap 1 (Plus Space), Opt (Cap 2 (Cat (lit ''async'') (Plus Space))),
           lit ''def'', Plus Space, Cap 3 (Plus Word), Star Space, Chr (CHR ''(''),
           Cap 4 (Star (Except '')'')), Chr (CHR '')''), Star Space,
           Opt (cats [lit ''->'', Star Space, Cap 5 (Plus (Except '':''))]), Chr (CHR '':'')]"

text \<open>\<open>/^(\s*)class\s+(\w+)(?:\(([^)]+)\))?:/gm\<close>\<close>

definition classRegex :: rx where
  "classRegex =
     cats [Bol True, Cap 1 (Star Space), lit ''class'', Plus Space, Cap 2 (Plus Word),
           Opt (cats [Chr (CHR ''(''), Cap 3 (Plus (Except '')'')), Chr (CHR '')'')]),
           Chr (CHR '':'')]"

text \<open>\<open>new RegExp(`^class\\s+\\w+`, 'gm')\<close>\<close>

definition nextClassRegex :: rx where
  "nextClassRegex = cats [Bol True, lit ''class'', Plus Space, Plus Word]"

text \<open>\<open>/^(\w+)\s*:\s*([^=]+)/\<close> and \<open>/^(\*{0,2}\w+)/\<close>\<close>

definition typedParamRegex :: rx where
  "typedParamRegex =
     cats [Bol False, Cap 1 (Plus Word), Star Space, Chr (CHR '':''), Star Space,
           Cap 2 (Plus (Except ''=''))]"

definition nameParamRegex :: rx where
  "nameParamRegex =
     cats [Bol False, Cap 1 (Cat (Opt (Cat (Chr (CHR ''*'')) (Opt (Chr (CHR ''*''))))) (Plus Word))]"

subsection \<open>parseParameters, extractDocstring, extractMethodsFromClass, extractClasses\<close>

definition parseParameter :: "string \<Rightarrow> Parameter list" where
  "parseParameter param =
     (if param = [] then []
      else case exec_start typedParamRegex param of
             Some typeMatch \<Rightarrow>
               [\<lparr>par_name = group_text typeMatch 1,
                 par_type = Some (trim (group_text typeMatch 2))\<rparr>]
           | None \<Rightarrow>
               (case exec_start nameParamRegex param of
                  Some nameMatch \<Rightarrow> [\<lparr>par_name = group_text nameMatch 1, par_type = None\<rparr>]
                | None \<Rightarrow> []))"

definition parseParameters :: "string \<Rightarrow> Parameter list" where
  "parseParameters paramsStr =
     (if trim paramsStr = [] then []
      else concat (map parseParameter (map trim (split_char (CHR '','') paramsStr))))"

definition DQ3 :: string where
  "DQ3 = [CHR 0x22, CHR 0x22, CHR 0x22]"

definition SQ3 :: string where
  "SQ3 = [CHR 0x27, CHR 0x27, CHR 0x27]"

text \<open>The multi-line branch of \<open>extractDocstring\<close>: the lines after the opening one.\<close>

fun docstring_tail :: "string list \<Rightarrow> string \<Rightarrow> string list \<Rightarrow> string option" where
  "docstring_tail [] delimiter docLines = None"
| "docstring_tail (line # ls) delimiter docLines =
     (if includes_str line delimiter
      then Some (join_lines
             (docLines @
              (if trim (take (case indexOf line delimiter of None \<Rightarrow> 0 | Some k \<Rightarrow> k) line) \<noteq> []
               then [trim (take (case indexOf line delimiter of None \<Rightarrow> 0 | Some k \<Rightarrow> k) line)] else [])))
      else docstring_tail ls delimiter (docLines @ [trim line]))"

definition docstring_head :: "string \<Rightarrow> string \<Rightarrow> string list" where
  "docstring_head line delimiter =
     (if trim (drop (case indexOf line delimiter of None \<Rightarrow> 2 | Some k \<Rightarrow> k + length delimiter) line) \<noteq> []
      then [trim (drop (case indexOf line delimiter of None \<Rightarrow> 2 | Some k \<Rightarrow> k + length delimiter) line)]
      else [])"

definition extractDocstring :: "string list \<Rightarrow> nat \<Rightarrow> string option" where
  "extractDocstring lines defLineNumber =
     (if defLineNumber \<ge> length lines then None
      else if trim (lines ! defLineNumber) = []
              \<or> (\<not> startsWith (trim (lines ! defLineNumber)) DQ3
                  \<and> \<not> startsWith (trim (lines ! defLineNumber)) SQ3) then None
      else if endsWith (trim (lines ! defLineNumber))
                (if startsWith (trim (lines ! defLineNumber)) DQ3 then DQ3 else SQ3)
              \<and> length (trim (lines ! defLineNumber)) > 3 * 2
           then Some (trim (substring (trim (lines ! defLineNumber)) 3
                              (length (trim (lines ! defLineNumber)) - 3)))
      else docstring_tail (drop (Suc defLineNumber) lines)
             (if startsWith (trim (lines ! defLineNumber)) DQ3 then DQ3 else SQ3)
             (docstring_head (lines ! defLineNumber)
                (if startsWith (trim (lines ! defLineNumber)) DQ3 then DQ3 else SQ3)))"

definition modifiers_of :: "string \<Rightarrow> string list" where
  "modifiers_of name =
     (if startsWith name ''_'' \<and> \<not> startsWith name ''__'' then [''protected'']
      else if startsWith name ''__'' then [''private'']
      else [])"

definition method_info :: "string \<Rightarrow> string list \<Rightarrow> rmatch \<Rightarrow> FunctionInfo" where
  "method_info content lines m =
     \<lparr>f_name = group_text m 3,
      f_parameters = filter (\<lambda>p. par_name p \<noteq> ''self'' \<and> par_name p \<noteq> ''cls'')
                       (parseParameters (group_text m 4)),
      f_returnType = map_option trim (group m 5),
      f_isAsync = (case group m 2 of None \<Rightarrow> False | Some a \<Rightarrow> a \<noteq> []),
      f_isGenerator = False,
      f_location = \<lparr>loc_start = rm_index m, loc_end = rm_index m + length (rm_text m),
                     loc_line = Some (line_of content (rm_index m)), loc_column = None\<rparr>,
      f_docstring = extractDocstring lines (line_of content (rm_index m)),
      f_modifiers = Some (modifiers_of (group_text m 3))\<rparr>"

text \<open>
  One round of the loop of \<open>extractMethodsFromClass\<close>: the three \<open>continue\<close> tests, then
  the push. The next class is searched from the end of the match on.
\<close>

definition method_of :: "string \<Rightarrow> string list \<Rightarrow> nat \<Rightarrow> rmatch \<Rightarrow> FunctionInfo list" where
  "method_of content lines classLine m =
     (if line_of content (rm_index m) \<le> classLine then []
      else if length (group_text m 1) = 0 then []
      else case exec_at nextClassRegex (rm_after m) of
             Some nextClassMatch \<Rightarrow>
               if rm_index nextClassMatch < rm_index m then [] else [method_info content lines m]
           | None \<Rightarrow> [method_info content lines m])"

definition extractMethodsFromClass ::
  "string \<Rightarrow> string list \<Rightarrow> nat \<Rightarrow> string \<Rightarrow> FunctionInfo list option" where
  "extractMethodsFromClass content lines classLine className =
     map_option (\<lambda>ms. concat (map (method_of content lines classLine) ms))
       (all_matches methodRegex content)"

definition class_of :: "string \<Rightarrow> string list \<Rightarrow> rmatch \<Rightarrow> ClassInfo list option" where
  "class_of content lines m =
     (if length (group_text m 1) > 0 then Some []
      else map_option
             (\<lambda>methods.
                [\<lparr>c_name = group_text m 2,
                  c_methods = methods,
                  c_properties = [],
                  c_superClass = map_option (\<lambda>b. trim (hd (split_char (CHR '','') b))) (group m 3),
                  c_decorators = [],
                  c_location = \<lparr>loc_start = rm_index m, loc_end = rm_index m + length (rm_text m),
                                 loc_line = Some (line_of content (rm_index m)), loc_column = None\<rparr>,
                  c_docstring = extractDocstring lines (line_of content (rm_index m))\<rparr>])
             (extractMethodsFromClass content lines (line_of content (rm_index m))
                (group_text m 2)))"

fun collect :: "'a list option list \<Rightarrow> 'a list option" where
  "collect [] = Some []"
| "collect (None # rs) = None"
| "collect (Some xs # rs) = map_option ((@) xs) (collect rs)"

definition extractClasses :: "string \<Rightarrow> string list \<Rightarrow> ClassInfo list option" where
  "extractClasses content lines =
     (case all_matches classRegex content of
        None \<Rightarrow> None
      | Some ms \<Rightarrow> collect (map (class_of content lines) ms))"

text \<open>The names of the classes found, each with the names of its methods.\<close>

definition class_method_names :: "ClassInfo list option \<Rightarrow> (string \<times> string list) list option" where
  "class_method_names r = map_option (map (\<lambda>c. (c_name c, map f_name (c_methods c)))) r"

text \<open>
  Two top-level classes, each with one method:
  \<^verbatim>\<open>class A:\<close>, \<^verbatim>\<open>    def a(self):\<close>, \<^verbatim>\<open>        pass\<close>,
  \<^verbatim>\<open>class B:\<close>, \<^verbatim>\<open>    def b(self, n: int) -> int:\<close>, \<^verbatim>\<open>        return n\<close>.
\<close>

definition two_classes :: string where
  "two_classes =
     ''class A:'' @ [LF] @ ''    def a(self):'' @ [LF] @ ''        pass'' @ [LF] @
     ''class B:'' @ [LF] @ ''    def b(self, n: int) -> int:'' @ [LF] @ ''        return n'' @ [LF]"

text \<open>
  The second \<open>exec\<close> of \<open>methodRegex\<close> on that text: the state after the header of
  method \<open>a\<close>, and the match of the header of method \<open>b\<close>, on line 5.
\<close>

definition after_method_a :: mstate where
  "after_method_a = \<lparr>ms_pos = 25, ms_prev = Some (CHR '':''), ms_rest = drop 25 two_classes, ms_caps = []\<rparr>"

definition match_method_b :: rmatch where
  "match_method_b =
     \<lparr>rm_index = 48, rm_text = ''    def b(self, n: int) -> int:'',
      rm_groups = [(5, ''int''), (4, ''self, n: int''), (3, ''b''), (1, ''    '')],
      rm_after = \<lparr>ms_pos = 79, ms_prev = Some (CHR '':''), ms_rest = drop 79 two_classes,
                   ms_caps = [(5, ''int''), (4, ''self, n: int''), (3, ''b''), (1, ''    '')]\<rparr>\<rparr>"

section \<open>Theorems\<close>

subsection \<open>countLines\<close>

lemma length_split_char: "length (split_char sep s) = count_list s sep + 1"
  by (induction s) (auto split: list.splits)

text \<open>
  C4 (as stated, refuted): the claim ends with "a file with empty content yields
  linesOfCode = 0". \<open>''.split('\n')\<close> is \<open>['']\<close>, so a successfully read empty file
  counts one line.
\<close>

theorem countLines_empty_counterexample: "countLines (Inr []) \<noteq> 0"
  by (simp add: countLines_def)

text \<open>
  C4 (amended): for every file, linesOfCode is the number of line separators plus one,
  and zero when the read fails; in particular an empty file yields 1.
\<close>

theorem countLines_separators_plus_one:
  "countLines (Inr content) = count_list content LF + 1
   \<and> countLines (Inl e) = 0
   \<and> countLines (Inr []) = 1"
  by (simp add: countLines_def length_split_char)


subsection \<open>updateStatus\<close>

lemma updateStatus_Some:
  "db ident = Some r \<Longrightarrow>
   updateStatus now ident status error db = Inr (db(ident \<mapsto> apply_update (updateData now status error) r))"
  by (simp add: updateStatus_def try_catch_def)

lemma apply_update_fields:
  "a_status (apply_update (updateData now status error) r) = status"
  "a_completedAt (apply_update (updateData now status error) r) =
     (if status = completed \<or> status = failed then Some now else a_completedAt r)"
  "a_startedAt (apply_update (updateData now status error) r) =
     (if status = processing \<and> \<not> truthy_str error then Some now else a_startedAt r)"
  by (auto simp: apply_update_def updateData_def Let_def)

lemma updateStatus_calls_append:
  "updateStatus_calls ident (xs @ ys) db =
     (case updateStatus_calls ident xs db of Inl e \<Rightarrow> Inl e | Inr db' \<Rightarrow> updateStatus_calls ident ys db')"
  by (induction xs arbitrary: db) (auto split: sum.splits)

lemma updateStatus_calls_row:
  "db ident = Some r \<Longrightarrow>
   \<exists>db' r'. updateStatus_calls ident calls db = Inr db' \<and> db' ident = Some r'
     \<and> a_status r' = (if calls = [] then a_status r else fst (snd (last calls)))
     \<and> (a_completedAt r' \<noteq> None \<longleftrightarrow> a_completedAt r \<noteq> None \<or> (\<exists>c \<in> set calls. sets_completed c))
     \<and> (a_startedAt r' \<noteq> None \<longleftrightarrow> a_startedAt r \<noteq> None \<or> (\<exists>c \<in> set calls. sets_started c))"
proof (induction calls arbitrary: db r)
  case Nil
  then show ?case by simp
next
  case (Cons c calls)
  obtain now status error where c: "c = (now, status, error)" by (cases c) auto
  let ?r1 = "apply_update (updateData now status error) r"
  let ?db1 = "db(ident \<mapsto> ?r1)"
  have step: "updateStatus now ident status error db = Inr ?db1"
    using Cons.prems by (rule updateStatus_Some)
  have "?db1 ident = Some ?r1" by simp
  from Cons.IH[where db = ?db1 and r = ?r1, OF this] obtain db' r' where
    run: "updateStatus_calls ident calls ?db1 = Inr db'" and row: "db' ident = Some r'"
    and st: "a_status r' = (if calls = [] then a_status ?r1 else fst (snd (last calls)))"
    and ca: "a_completedAt r' \<noteq> None \<longleftrightarrow> a_completedAt ?r1 \<noteq> None \<or> (\<exists>c \<in> set calls. sets_completed c)"
    and sa: "a_startedAt r' \<noteq> None \<longleftrightarrow> a_startedAt ?r1 \<noteq> None \<or> (\<exists>c \<in> set calls. sets_started c)"
    by blast
  have "updateStatus_calls ident (c # calls) db = Inr db'"
    using step run by (simp add: c)
  moreover have "a_status r' = (if c # calls = [] then a_status r else fst (snd (last (c # calls))))"
    using st by (simp add: c apply_update_fields)
  moreover have "a_completedAt r' \<noteq> None \<longleftrightarrow> a_completedAt r \<noteq> None \<or> (\<exists>x \<in> set (c # calls). sets_completed x)"
    using ca by (auto simp: c apply_update_fields sets_completed_def)
  moreover have "a_startedAt r' \<noteq> None \<longleftrightarrow> a_startedAt r \<noteq> None \<or> (\<exists>x \<in> set (c # calls). sets_started x)"
    using sa by (auto simp: c apply_update_fields sets_started_def)
  ultimately show ?case using row by blast
qed

lemma create_fresh:
  "create t0 d db0 = Inr db1 \<Longrightarrow>
   \<exists>r. db1 (cd_id d) = Some r \<and> a_status r = queued \<and> a_startedAt r = None \<and> a_completedAt r = None"
  by (auto simp: create_def split: option.splits)

text \<open>
  C8 (as stated, refuted): "completedAt is non-null iff status is completed or failed".
  A job that fails and is retried (the queue gives every job three attempts, and each
  attempt starts with \<open>updateStatus(id, 'processing')\<close>) is \<open>processing\<close> again while
  \<open>completedAt\<close> still holds the time of the failure: nothing clears it.
\<close>

theorem updateStatus_retry_counterexample:
  "observe (after_create [(1, processing, None), (2, failed, Some ''boom''), (3, processing, None)]) ''a1''
     = Some (processing, Some 3, Some 2)"
  by (simp add: after_create_def create_def demo_create_def observe_def updateStatus_def
      try_catch_def apply_update_def updateData_def truthy_str_def Let_def)

text \<open>
  C8 (amended): for a record made by \<open>create\<close> and any history of \<open>updateStatus\<close> calls
  on it, no call fails, and the record then has: \<open>completedAt\<close> non-null whenever the
  status is completed or failed; \<open>completedAt\<close> non-null iff some call entered completed
  or failed; \<open>startedAt\<close> non-null iff some call entered processing without an error
  argument. One more call \<open>(now, status, error)\<close> sets \<open>startedAt\<close> to \<open>now\<close> exactly when
  it enters processing without an error, sets \<open>completedAt\<close> to \<open>now\<close> exactly when it
  enters completed or failed, and leaves both alone otherwise.
\<close>

theorem updateStatus_timestamps:
  assumes "create t0 d db0 = Inr db1"
  shows "\<exists>st sa ca.
       observe (updateStatus_calls (cd_id d) calls db1) (cd_id d) = Some (st, sa, ca)
     \<and> (st = completed \<or> st = failed \<longrightarrow> ca \<noteq> None)
     \<and> (ca \<noteq> None \<longleftrightarrow> (\<exists>c \<in> set calls. sets_completed c))
     \<and> (sa \<noteq> None \<longleftrightarrow> (\<exists>c \<in> set calls. sets_started c))
     \<and> observe (updateStatus_calls (cd_id d) (calls @ [(now, status, error)]) db1) (cd_id d)
         = Some (status,
                 if status = processing \<and> \<not> truthy_str error then Some now else sa,
                 if status = completed \<or> status = failed then Some now else ca)"
proof -
  from create_fresh[OF assms] obtain r where r: "db1 (cd_id d) = Some r" "a_status r = queued"
    "a_startedAt r = None" "a_completedAt r = None" by blast
  from updateStatus_calls_row[where db = db1 and ident = "cd_id d" and r = r and calls = calls, OF r(1)]
  obtain db' r' where
    run: "updateStatus_calls (cd_id d) calls db1 = Inr db'" and row: "db' (cd_id d) = Some r'"
    and st: "a_status r' = (if calls = [] then a_status r else fst (snd (last calls)))"
    and ca: "a_completedAt r' \<noteq> None \<longleftrightarrow> a_completedAt r \<noteq> None \<or> (\<exists>c \<in> set calls. sets_completed c)"
    and sa: "a_startedAt r' \<noteq> None \<longleftrightarrow> a_startedAt r \<noteq> None \<or> (\<exists>c \<in> set calls. sets_started c)"
    by blast
  have obs: "observe (updateStatus_calls (cd_id d) calls db1) (cd_id d)
       = Some (a_status r', a_startedAt r', a_completedAt r')"
    by (simp add: observe_def run row)
  have fin: "a_status r' = completed \<or> a_status r' = failed \<longrightarrow> a_completedAt r' \<noteq> None"
  proof
    assume t: "a_status r' = completed \<or> a_status r' = failed"
    then have ne: "calls \<noteq> []" using st r(2) by (auto split: if_splits)
    then have "last calls \<in> set calls" by simp
    moreover have "sets_completed (last calls)" using t st ne by (simp add: sets_completed_def)
    ultimately show "a_completedAt r' \<noteq> None" using ca by blast
  qed
  have step: "observe (updateStatus_calls (cd_id d) (calls @ [(now, status, error)]) db1) (cd_id d)
       = Some (status,
               if status = processing \<and> \<not> truthy_str error then Some now else a_startedAt r',
               if status = completed \<or> status = failed then Some now else a_completedAt r')"
    by (simp add: updateStatus_calls_append run observe_def apply_update_fields
        updateStatus_Some[where db = db' and ident = "cd_id d" and r = r', OF row])
  show ?thesis using obs fin ca sa r(3,4) step by simp
qed

theorem updateStatus_timestamps_witness:
  "create 0 demo_create Map.empty \<noteq> Inl UniqueViolation
   \<and> observe (after_create [(1, processing, None), (2, completed, None)]) ''a1''
       = Some (completed, Some 1, Some 2)"
proof -
  obtain db1 where c: "create 0 demo_create Map.empty = Inr db1"
    by (simp add: create_def)
  show ?thesis
    using updateStatus_timestamps[OF c, of "[(1, processing, None)]" 2 completed None]
    by (simp add: after_create_def create_def demo_create_def observe_def updateStatus_def
        try_catch_def apply_update_def updateData_def truthy_str_def Let_def)
qed

subsection \<open>saveParsedFiles\<close>

lemma createMany_noop:
  "row_key ` set rs \<subseteq> row_key ` set tbl \<Longrightarrow> createMany_skipDuplicates rs tbl = tbl"
  by (induction rs arbitrary: tbl) auto

lemma createMany_keys:
  "row_key ` set (createMany_skipDuplicates rs tbl) = row_key ` set rs \<union> row_key ` set tbl"
  by (induction rs arbitrary: tbl) auto

text \<open>
  C9: saving the same files for the same analysis a second time leaves the table as the
  first save left it, whatever the table held before and whether or not the batch
  repeats a path.
\<close>

theorem saveParsedFiles_idempotent:
  "saveParsedFiles analysisId parsedFiles (saveParsedFiles analysisId parsedFiles tbl)
     = saveParsedFiles analysisId parsedFiles tbl"
  unfolding saveParsedFiles_def Let_def
  by (rule createMany_noop) (simp add: createMany_keys)

theorem saveParsedFiles_idempotent_witness:
  "saveParsedFiles ''a1'' demo_files (saveParsedFiles ''a1'' demo_files [])
     = [\<lparr>pf_analysisId = ''a1'', pf_filePath = ''src/a.ts'', pf_language = ''typescript'',
          pf_data = empty_parsed ''src/a.ts'' ''typescript''\<rparr>,
        \<lparr>pf_analysisId = ''a1'', pf_filePath = ''b.py'', pf_language = ''python'',
          pf_data = empty_parsed ''b.py'' ''python''\<rparr>]"
  using saveParsedFiles_idempotent[of "''a1''" demo_files "[]"]
  by (simp add: saveParsedFiles_def demo_files_def empty_parsed_def row_key_def)

subsection \<open>list\<close>

lemma list_records_total: "\<exists>r. list_records prisma options = Inr r"
  by (auto simp: list_records_def try_catch_def promise_all2_def Let_def split: sum.splits prod.splits)

lemma list_records_throws:
  "findMany prisma (list_where options) (list_limit options) (list_offset options) = Inl e
     \<or> count_rows prisma (list_where options) = Inl e \<Longrightarrow>
   list_records prisma options = Inr \<lparr>lr_analyses = [], lr_total = 0\<rparr>"
  by (auto simp: list_records_def try_catch_def promise_all2_def Let_def split: sum.splits)

lemma get_analyses_ok:
  "list_records prisma (query_options q_limit q_offset q_status) = Inr r \<Longrightarrow>
   get_analyses prisma q_limit q_offset q_status =
     Inr \<lparr>statusCode = 200,
          body = \<lparr>pg_analyses = map list_item (lr_analyses r), pg_total = lr_total r,
                  pg_page = query_offset q_offset div query_limit q_limit + 1\<rparr>\<rparr>"
  by (simp add: get_analyses_def)

text \<open>
  C10: \<open>list\<close> always returns a value; when either store query throws, the value is the
  empty list with total 0; and \<open>GET /analyses\<close> always answers 200, with an empty page
  and total 0 when \<open>list\<close> returned the empty result.
\<close>

theorem list_never_throws:
  "(\<exists>r. list_records prisma options = Inr r)
   \<and> (findMany prisma (list_where options) (list_limit options) (list_offset options) = Inl e
        \<or> count_rows prisma (list_where options) = Inl e
      \<longrightarrow> list_records prisma options = Inr \<lparr>lr_analyses = [], lr_total = 0\<rparr>)
   \<and> (\<exists>resp. get_analyses prisma q_limit q_offset q_status = Inr resp
        \<and> statusCode resp = 200
        \<and> (list_records prisma (query_options q_limit q_offset q_status)
              = Inr \<lparr>lr_analyses = [], lr_total = 0\<rparr>
            \<longrightarrow> pg_analyses (body resp) = [] \<and> pg_total (body resp) = 0))"
proof -
  obtain r where r: "list_records prisma (query_options q_limit q_offset q_status) = Inr r"
    using list_records_total by blast
  have "\<exists>resp. get_analyses prisma q_limit q_offset q_status = Inr resp
        \<and> statusCode resp = 200
        \<and> (list_records prisma (query_options q_limit q_offset q_status)
              = Inr \<lparr>lr_analyses = [], lr_total = 0\<rparr>
            \<longrightarrow> pg_analyses (body resp) = [] \<and> pg_total (body resp) = 0)"
    using r by (auto simp: get_analyses_ok[OF r])
  then show ?thesis
    using list_records_total list_records_throws by blast
qed

theorem list_never_throws_witness:
  "findMany failing_prisma None 20 0 = Inl DbFailure
   \<and> list_records failing_prisma \<lparr>lo_limit = None, lo_offset = None, lo_status = None\<rparr>
       = Inr \<lparr>lr_analyses = [], lr_total = 0\<rparr>
   \<and> get_analyses failing_prisma None (Some 40) (Some ''failed'')
       = Inr \<lparr>statusCode = 200, body = \<lparr>pg_analyses = [], pg_total = 0, pg_page = 3\<rparr>\<rparr>"
proof -
  let ?o = "\<lparr>lo_limit = None, lo_offset = None, lo_status = None\<rparr>"
  have w: "list_where ?o = None" "list_limit ?o = 20" "list_offset ?o = 0"
    by (simp_all add: list_where_def list_limit_def list_offset_def truthy_str_def)
  have f: "findMany failing_prisma wh n k = Inl DbFailure" for wh n k
    by (simp add: failing_prisma_def)
  from list_never_throws[of failing_prisma ?o DbFailure None "Some 40" "Some ''failed''"]
  have a: "list_records failing_prisma ?o = Inr \<lparr>lr_analyses = [], lr_total = 0\<rparr>"
    by (simp add: w f)
  have q: "list_records failing_prisma (query_options None (Some 40) (Some ''failed''))
      = Inr \<lparr>lr_analyses = [], lr_total = 0\<rparr>"
    by (rule list_records_throws[where e = DbFailure]) (simp add: f)
  show ?thesis
    using a f by (simp add: get_analyses_ok[OF q] query_offset_def query_limit_def)
qed


subsection \<open>Parser service\<close>

lemma parseFile_total: "\<exists>r. parseFile env options p = Inr r"
  by (auto simp: parseFile_def try_catch_def Let_def split: sum.splits)

lemma promise_all_Inr:
  "\<forall>p \<in> set ps. \<exists>r. p = Inr r \<Longrightarrow> promise_all ps = Inr (map projr ps)"
  by (induction ps) auto

lemma parseFilesParallel_entries:
  "parseFilesParallel env options filePaths = Inr (concat (map (entry_for env options) filePaths))"
proof -
  have "promise_all (map (parseFile env options) filePaths)
      = Inr (map projr (map (parseFile env options) filePaths))"
    by (rule promise_all_Inr) (use parseFile_total in auto)
  moreover have "not_null (map projr (map (parseFile env options) filePaths))
      = concat (map (entry_for env options) filePaths)"
  proof (induction filePaths)
    case Nil
    show ?case by (simp add: not_null_def)
  next
    case (Cons p ps)
    obtain r where r: "parseFile env options p = Inr r" using parseFile_total by blast
    show ?case using Cons r by (cases r) (simp_all add: not_null_def entry_for_def)
  qed
  ultimately show ?thesis by (simp add: parseFilesParallel_def)
qed

lemma read_failure_omitted:
  "pe_readFile env p = Inl e \<Longrightarrow>
   pe_detectLanguage env p = ''typescript'' \<or> pe_detectLanguage env p = ''python'' \<Longrightarrow>
   parseFile env options p = Inr None"
  by (auto simp: parseFile_def route_def try_catch_def Let_def TypeScriptParser_parseFile_def
      PythonParser_parseFile_def)

lemma js_failure_omitted:
  "pe_jsParseFile env p = Inl x \<Longrightarrow> pe_detectLanguage env p = ''javascript'' \<Longrightarrow>
   parseFile env options p = Inr None"
  by (auto simp: parseFile_def route_def try_catch_def Let_def)

lemma extraction_failure_kept:
  "\<not> skipped_for_size env options p \<Longrightarrow> pe_readFile env p = Inr content \<Longrightarrow>
   (pe_detectLanguage env p = ''typescript'' \<and> pe_tsParse env content = Inl m)
    \<or> (pe_detectLanguage env p = ''python'' \<and> pe_pyExtract env content = Inl m) \<Longrightarrow>
   parseFile env options p = Inr (Some (empty_parsed p (pe_detectLanguage env p)))"
  by (auto simp: parseFile_def route_def try_catch_def Let_def TypeScriptParser_parseFile_def
      PythonParser_parseFile_def isSupportedForParsing_def)

text \<open>
  C5 (as stated, refuted): "that file is omitted from the parse output". A TypeScript
  file on which the library's \<open>parse\<close> throws is answered by the TypeScript parser's own
  catch block with a ParsedFile whose lists are empty, and that entry is in the output.
  (The Python file of the example cannot be read, and is omitted.)
\<close>

theorem parse_error_kept_counterexample:
  "parseFilesParallel broken_ts_env worker_parser_options [''/repo/src/a.ts'', ''/repo/gone.py'']
     = Inr [empty_parsed ''/repo/src/a.ts'' ''typescript'']"
  by (simp add: parseFilesParallel_def parseFile_def route_def try_catch_def Let_def
      TypeScriptParser_parseFile_def PythonParser_parseFile_def isSupportedForParsing_def
      skipped_for_size_def broken_ts_env_def worker_parser_options_def maxSize_def not_null_def)

text \<open>
  C5 (amended): no exception raised while parsing a file leaves the parser service:
  \<open>parseFile\<close> always returns, and the output of \<open>parseFilesParallel\<close> is, in order, the
  entry of each path. A TypeScript or Python file that cannot be read, and a JavaScript
  file whose parser throws, has no entry. A TypeScript or Python file that passes the
  size check and is read, but whose extraction throws, has one entry: a ParsedFile with
  its path, its language and empty lists.
\<close>

theorem parse_failures_caught:
  "parseFilesParallel env options filePaths = Inr (concat (map (entry_for env options) filePaths))
   \<and> (\<exists>r. parseFile env options p = Inr r)
   \<and> (pe_readFile env p = Inl e
        \<and> (pe_detectLanguage env p = ''typescript'' \<or> pe_detectLanguage env p = ''python'')
      \<longrightarrow> entry_for env options p = [])
   \<and> (pe_jsParseFile env p = Inl x \<and> pe_detectLanguage env p = ''javascript''
      \<longrightarrow> entry_for env options p = [])
   \<and> (\<not> skipped_for_size env options p \<and> pe_readFile env p = Inr content
        \<and> ((pe_detectLanguage env p = ''typescript'' \<and> pe_tsParse env content = Inl m)
            \<or> (pe_detectLanguage env p = ''python'' \<and> pe_pyExtract env content = Inl m))
      \<longrightarrow> entry_for env options p = [empty_parsed p (pe_detectLanguage env p)])"
  using parseFilesParallel_entries[of env options filePaths] parseFile_total[of env options p]
    read_failure_omitted[of env p e options] js_failure_omitted[of env p x options]
    extraction_failure_kept[of env options p content m]
  by (auto simp: entry_for_def)

theorem parse_failures_caught_witness:
  "pe_readFile broken_ts_env ''/repo/gone.py'' = Inl IOError
   \<and> pe_tsParse broken_ts_env ''export {'' = Inl ''Unexpected token''
   \<and> entry_for broken_ts_env worker_parser_options ''/repo/gone.py'' = []
   \<and> parseFilesParallel broken_ts_env worker_parser_options [''/repo/src/a.ts'']
       = Inr [empty_parsed ''/repo/src/a.ts'' ''typescript'']"
proof -
  have a: "pe_readFile broken_ts_env ''/repo/gone.py'' = Inl IOError"
    "pe_detectLanguage broken_ts_env ''/repo/gone.py'' = ''python''"
    "pe_readFile broken_ts_env ''/repo/src/a.ts'' = Inr ''export {''"
    "pe_detectLanguage broken_ts_env ''/repo/src/a.ts'' = ''typescript''"
    "pe_tsParse broken_ts_env ''export {'' = Inl ''Unexpected token''"
    "\<not> skipped_for_size broken_ts_env worker_parser_options ''/repo/src/a.ts''"
    by (simp_all add: broken_ts_env_def skipped_for_size_def worker_parser_options_def maxSize_def)
  have b: "entry_for broken_ts_env worker_parser_options ''/repo/gone.py'' = []"
    using parse_failures_caught[of broken_ts_env worker_parser_options "[]" "''/repo/gone.py''" IOError]
    by (simp add: a)
  have c: "parseFilesParallel broken_ts_env worker_parser_options [''/repo/src/a.ts'']
       = Inr [empty_parsed ''/repo/src/a.ts'' ''typescript'']"
    using parse_failures_caught[of broken_ts_env worker_parser_options "[''/repo/src/a.ts'']"
        "''/repo/src/a.ts''" _ _ "''export {''" "''Unexpected token''"]
    by (simp add: a)
  show ?thesis using a b c by simp
qed


subsection \<open>Tree builder\<close>

lemmas build_eval = buildFileTree_def try_catch_def Let_def basename_def relative_def join_def
  shouldSkipDirectory_def skipDirs_def SLASH_def DOT_def getFileMetadata_def detectLanguage_def
  getFileExtension_def extname_def LANGUAGE_MAP_def isTestFile_def isConfigFile_def configPatterns_def
  toLowerCase_def lower_char_def startsWith_def countLines_def LF_def dropped_def sort_by_def
  compareNodes_def caseless_compare_def char_codes_def demo_platform_def demo_build_options_def
  demo_working_copy_def demo_root_def node_names_def root_children_def

lemma set_insert_by: "set (insert_by cmp x ys) = insert x (set ys)"
  by (induction ys) auto

lemma set_sort_by: "set (sort_by cmp xs) = set xs"
  unfolding sort_by_def by (induction xs) (auto simp: set_insert_by)

lemma sorted_insert_by:
  assumes T: "\<And>a b c. cmp a b \<le> 0 \<Longrightarrow> cmp b c \<le> 0 \<Longrightarrow> cmp a c \<le> 0"
    and C: "\<And>a b. cmp a b \<le> 0 \<or> cmp b a \<le> 0"
  shows "sorted_wrt (\<lambda>a b. cmp a b \<le> 0) ys \<Longrightarrow> sorted_wrt (\<lambda>a b. cmp a b \<le> 0) (insert_by cmp x ys)"
proof (induction ys)
  case Nil
  then show ?case by simp
next
  case (Cons y ys)
  show ?case
  proof (cases "cmp x y \<le> 0")
    case True
    then have "\<forall>z \<in> set ys. cmp x z \<le> 0" using Cons.prems T by auto
    then show ?thesis using True Cons.prems by simp
  next
    case False
    then have "cmp y x \<le> 0" using C by blast
    then show ?thesis using False Cons by (auto simp: set_insert_by)
  qed
qed

lemma sorted_sort_by:
  assumes T: "\<And>a b c. cmp a b \<le> 0 \<Longrightarrow> cmp b c \<le> 0 \<Longrightarrow> cmp a c \<le> 0"
    and C: "\<And>a b. cmp a b \<le> 0 \<or> cmp b a \<le> 0"
  shows "sorted_wrt (\<lambda>a b. cmp a b \<le> 0) (sort_by cmp xs)"
  unfolding sort_by_def
  by (induction xs) (auto intro: sorted_insert_by[OF T C])

lemma nodes_self: "t \<in> set (nodes t)"
  by (cases t) simp

lemma buildTreeRecursive_nodes_aux:
  "buildTreeRecursive pf options cur rootPath e = Inr t \<Longrightarrow>
   (\<And>i nm ty p rel md. Q (Node i nm ty p rel None md)) \<Longrightarrow>
   (\<And>i nm p rel xs. \<not> shouldSkipDirectory nm \<Longrightarrow>
       Q (Node i nm directory_node p rel (Some (sort_by (compareNodes pf) xs)) None)) \<Longrightarrow>
   \<forall>d \<in> set (nodes t). Q d"
proof (induction pf options cur rootPath e arbitrary: t rule: buildTreeRecursive.induct)
  case (5 pf options currentPath rootPath nm entries)
  note leaf = "5.prems"(2) and dir = "5.prems"(3)
  show ?case
  proof (cases "shouldSkipDirectory (basename currentPath)")
    case True
    then show ?thesis using "5.prems"(1) leaf by (auto simp: Let_def)
  next
    case False
    define kids where "kids = concat (map (\<lambda>entry.
                    case buildTreeRecursive pf options (join currentPath (entry_name entry)) rootPath entry of
                      Inl error \<Rightarrow> []
                    | Inr childNode \<Rightarrow> if dropped options childNode then [] else [childNode])
                  entries)"
    have t: "t = Node (generateId pf currentPath) (basename currentPath) directory_node currentPath
                    (if relative rootPath currentPath = [] then ''.'' else relative rootPath currentPath)
                    (Some (sort_by (compareNodes pf) kids)) None"
      using "5.prems"(1) False by (simp add: Let_def kids_def)
    have kids: "\<forall>d \<in> set (nodes c). Q d" if "c \<in> set kids" for c
    proof -
      from that obtain entry where e: "entry \<in> set entries"
        and r: "buildTreeRecursive pf options (join currentPath (entry_name entry)) rootPath entry = Inr c"
        unfolding kids_def by (auto split: sum.splits if_splits)
      show ?thesis using "5.IH"[OF refl refl False e r leaf dir] by blast
    qed
    have "Q t" unfolding t using dir[OF False] .
    then show ?thesis using kids by (auto simp: t set_sort_by)
  qed
qed (auto simp: Let_def split: if_splits)

lemma buildTreeRecursive_nodes:
  assumes "\<And>i nm ty p rel md. Q (Node i nm ty p rel None md)"
    and "\<And>i nm p rel xs. \<not> shouldSkipDirectory nm \<Longrightarrow>
               Q (Node i nm directory_node p rel (Some (sort_by (compareNodes pf) xs)) None)"
    and "buildTreeRecursive pf options cur rootPath e = Inr t"
  shows "\<forall>d \<in> set (nodes t). Q d"
  using buildTreeRecursive_nodes_aux[OF assms(3), of Q] assms(1,2) by blast

lemma buildTreeRecursive_name:
  "buildTreeRecursive pf options cur rootPath e = Inr t \<Longrightarrow> n_name t = basename cur"
  by (cases e) (auto simp: Let_def split: if_splits)

lemma buildFileTree_nodes:
  assumes "buildFileTree pf options rootPath rootEntry = Inr tree"
  obtains t where "buildTreeRecursive pf options rootPath rootPath rootEntry = Inr t"
    and "tree = Node (generateRootId pf) (basename rootPath) directory_node rootPath [] (n_children t) None"
    and "set (nodes tree) \<subseteq> insert tree (set (nodes t))"
proof -
  from assms obtain t where t: "buildTreeRecursive pf options rootPath rootPath rootEntry = Inr t"
    and tr: "tree = Node (generateRootId pf) (basename rootPath) directory_node rootPath [] (n_children t) None"
    by (auto simp: buildFileTree_def try_catch_def Let_def split: sum.splits)
  have "set (nodes tree) \<subseteq> insert tree (set (nodes t))"
    unfolding tr by (cases t) (auto split: option.splits)
  with t tr show ?thesis using that by blast
qed

lemma child_in_nodes: "n_children t = Some cs \<Longrightarrow> c \<in> set cs \<Longrightarrow> c \<in> set (nodes t)"
  by (cases t) (auto intro: nodes_self)

lemma caseless_consistent: "consistent_comparator caseless_compare"
  unfolding consistent_comparator_def caseless_compare_def Let_def by auto

lemma demo_tree_built:
  "buildFileTree demo_platform demo_build_options demo_root demo_working_copy = Inr demo_tree"
  by (simp add: demo_tree_def build_eval)

lemma demo_tree_children: "n_children demo_tree = Some demo_children"
  by (simp add: demo_tree_def demo_children_def build_eval)

text \<open>
  C3 (as stated, refuted): "nor emits it as a child node of its parent directory, so such
  directories appear nowhere in the resulting tree". For a skip-listed directory
  \<open>buildTreeRecursive\<close> returns the base node without children, and the loop of the
  parent pushes every directory node it gets: on the fixture \<open>a.ts\<close>, \<open>b.py\<close>,
  \<open>node_modules/ignored.js\<close> the tree holds a node named \<open>node_modules\<close>.
\<close>

theorem skip_dirs_emitted_counterexample:
  "node_names (buildFileTree demo_platform demo_build_options demo_root demo_working_copy)
     = [''clone_1'', ''node_modules'', ''a.ts'', ''b.py'']"
  by (simp add: build_eval)

lemma skipped_nodes_childless:
  assumes "buildFileTree pf options rootPath rootEntry = Inr tree"
    and "d \<in> set (nodes tree)" and "n_type d = directory_node" and "shouldSkipDirectory (n_name d)"
  shows "n_children d = None \<and> nodes d = [d]"
proof -
  let ?Q = "\<lambda>d. n_type d = directory_node \<and> shouldSkipDirectory (n_name d) \<longrightarrow> n_children d = None"
  from assms(1) obtain t where t: "buildTreeRecursive pf options rootPath rootPath rootEntry = Inr t"
    and tr: "tree = Node (generateRootId pf) (basename rootPath) directory_node rootPath [] (n_children t) None"
    and sub: "set (nodes tree) \<subseteq> insert tree (set (nodes t))"
    by (rule buildFileTree_nodes)
  have all: "\<forall>d \<in> set (nodes t). ?Q d"
    by (rule buildTreeRecursive_nodes[OF _ _ t]) auto
  have "?Q t" using all nodes_self by blast
  moreover have "n_type t = directory_node \<or> n_children t = None"
    using t by (cases rootEntry) (auto simp: Let_def split: if_splits)
  ultimately have "?Q tree" using buildTreeRecursive_name[OF t] by (auto simp: tr)
  then have "?Q d" using all sub assms(2) by blast
  then have "n_children d = None" using assms(3,4) by blast
  then show ?thesis by (cases d) simp
qed


lemma basename_join:
  assumes "SLASH \<notin> set nm" and "nm \<noteq> []"
  shows "basename (join cur nm) = nm"
proof -
  have a: "dropWhile (\<lambda>c. c = SLASH) (rev nm @ SLASH # rev cur) = rev nm @ SLASH # rev cur"
    using assms by (cases "rev nm") (auto simp: hd_rev last_in_set)
  have b: "takeWhile (\<lambda>c. c \<noteq> SLASH) (rev nm @ SLASH # rev cur) = rev nm"
  proof -
    have "\<forall>x \<in> set (rev nm). x \<noteq> SLASH" using assms(1) by auto
    then have "takeWhile (\<lambda>c. c \<noteq> SLASH) (rev nm @ SLASH # rev cur)
        = rev nm @ takeWhile (\<lambda>c. c \<noteq> SLASH) (SLASH # rev cur)"
      by (intro takeWhile_append2) auto
    then show ?thesis by simp
  qed
  show ?thesis by (simp add: basename_def join_def a b)
qed

lemma skip_name_plain: "shouldSkipDirectory nm \<Longrightarrow> SLASH \<notin> set nm \<and> nm \<noteq> []"
  by (auto simp: shouldSkipDirectory_def skipDirs_def SLASH_def)

lemma skipped_child:
  assumes "is_directory e" and "shouldSkipDirectory (entry_name e)"
  shows "\<exists>c. buildTreeRecursive pf options (join cur (entry_name e)) rootPath e = Inr c
     \<and> n_name c = entry_name e \<and> n_type c = directory_node \<and> n_children c = None
     \<and> \<not> dropped options c"
proof -
  have b: "basename (join cur (entry_name e)) = entry_name e"
    using skip_name_plain[OF assms(2)] by (simp add: basename_join)
  show ?thesis using assms b by (cases e) (auto simp: Let_def dropped_def)
qed

lemma skip_dir_emitted:
  assumes "buildTreeRecursive pf options cur rootPath (Dir nm entries) = Inr t"
    and "\<not> shouldSkipDirectory (basename cur)"
    and "e \<in> set entries" and "is_directory e" and "shouldSkipDirectory (entry_name e)"
  shows "\<exists>c \<in> set (root_children (Inr t)).
           n_name c = entry_name e \<and> n_type c = directory_node \<and> n_children c = None"
proof -
  from skipped_child[OF assms(4,5), of pf options cur rootPath] obtain c where
    c: "buildTreeRecursive pf options (join cur (entry_name e)) rootPath e = Inr c"
      "n_name c = entry_name e" "n_type c = directory_node" "n_children c = None"
      "\<not> dropped options c"
    by blast
  define kids where "kids = concat (map (\<lambda>entry.
                    case buildTreeRecursive pf options (join cur (entry_name entry)) rootPath entry of
                      Inl error \<Rightarrow> []
                    | Inr childNode \<Rightarrow> if dropped options childNode then [] else [childNode])
                  entries)"
  have "c \<in> set kids"
    unfolding kids_def using assms(3) c(1,5) by (auto intro!: bexI[of _ e])
  moreover have "root_children (Inr t) = sort_by (compareNodes pf) kids"
    using assms(1,2) by (auto simp: Let_def kids_def root_children_def)
  ultimately show ?thesis using c(2-4) by (auto simp: set_sort_by)
qed

text \<open>
  C3 (amended): \<open>buildFileTree\<close> never descends into a directory whose name is in the
  skip list: every directory node of the resulting tree with such a name has no
  children list, so nothing beneath it appears in the tree. The directory itself is
  emitted where the builder meets it: when \<open>buildTreeRecursive\<close> lists a directory
  whose own name is not in the skip list, every skip-listed directory among the
  entries it reads is a childless directory node among the children of the node it
  returns. (A skip-listed directory beneath a skip-listed one is beneath a childless
  node, and so appears nowhere in the tree.)
\<close>

theorem skip_dirs_childless:
  "(buildFileTree pf options rootPath rootEntry = Inr tree \<and> d \<in> set (nodes tree)
      \<and> n_type d = directory_node \<and> shouldSkipDirectory (n_name d)
    \<longrightarrow> n_children d = None \<and> nodes d = [d])
   \<and> (buildTreeRecursive pf options cur rootPath (Dir nm entries) = Inr t
      \<and> \<not> shouldSkipDirectory (basename cur)
      \<and> e \<in> set entries \<and> is_directory e \<and> shouldSkipDirectory (entry_name e)
    \<longrightarrow> (\<exists>c \<in> set (root_children (Inr t)).
           n_name c = entry_name e \<and> n_type c = directory_node \<and> n_children c = None))"
  using skipped_nodes_childless[of pf options rootPath rootEntry tree d]
    skip_dir_emitted[of pf options cur rootPath nm entries t e]
  by blast

theorem skip_dirs_childless_witness:
  "buildFileTree demo_platform demo_build_options demo_root demo_working_copy = Inr demo_tree
   \<and> shouldSkipDirectory (n_name (demo_children ! 0))
   \<and> n_type (demo_children ! 0) = directory_node
   \<and> n_children (demo_children ! 0) = None
   \<and> nodes (demo_children ! 0) = [demo_children ! 0]
   \<and> \<not> shouldSkipDirectory (basename demo_root)
   \<and> is_directory (Dir ''node_modules'' [])
   \<and> shouldSkipDirectory (entry_name (Dir ''node_modules'' []))
   \<and> (\<exists>c \<in> set (root_children
          (buildTreeRecursive demo_platform demo_build_options demo_root demo_root
             (Dir ''clone_1'' [Dir ''node_modules'' []]))).
         n_name c = ''node_modules'' \<and> n_type c = directory_node \<and> n_children c = None)"
proof -
  have a: "shouldSkipDirectory (n_name (demo_children ! 0))"
    "n_type (demo_children ! 0) = directory_node"
    by (simp_all add: demo_children_def shouldSkipDirectory_def skipDirs_def)
  have "demo_children ! 0 \<in> set demo_children" by (simp add: demo_children_def)
  then have m: "demo_children ! 0 \<in> set (nodes demo_tree)"
    using demo_tree_children by (rule child_in_nodes[rotated])
  have b: "\<not> shouldSkipDirectory (basename demo_root)"
    "is_directory (Dir ''node_modules'' [])"
    "shouldSkipDirectory (entry_name (Dir ''node_modules'' []))"
    by (simp_all add: build_eval)
  obtain t where t: "buildTreeRecursive demo_platform demo_build_options demo_root demo_root
      (Dir ''clone_1'' [Dir ''node_modules'' []]) = Inr t"
    by (simp add: build_eval)
  have e: "Dir ''node_modules'' [] \<in> set [Dir ''node_modules'' []]" by simp
  show ?thesis
    using skip_dirs_childless[of demo_platform demo_build_options demo_root demo_working_copy
        demo_tree "demo_children ! 0" demo_root "''clone_1''" "[Dir ''node_modules'' []]" t
        "Dir ''node_modules'' []"] demo_tree_built m a b t e
    by (simp del: set_simps)
qed

lemma node_type_cases: "(ty::node_type) = file_node \<or> ty = directory_node"
  by (cases ty) auto

lemma compareNodes_trans:
  assumes T: "\<And>a b c. lc a b \<le> (0::int) \<Longrightarrow> lc b c \<le> 0 \<Longrightarrow> lc a c \<le> 0"
    and ab: "compareNodes pf a b \<le> 0" and bc: "compareNodes pf b c \<le> 0"
    and lc: "lc = localeCompare pf"
  shows "compareNodes pf a c \<le> 0"
proof (cases "n_type a = n_type b")
  case eq1: True
  show ?thesis
  proof (cases "n_type b = n_type c")
    case True
    then show ?thesis using eq1 ab bc T[of "n_name a" "n_name b" "n_name c"]
      by (simp add: compareNodes_def lc)
  next
    case False
    then show ?thesis using eq1 bc by (simp add: compareNodes_def split: if_splits)
  qed
next
  case ne1: False
  then have a: "n_type a = directory_node" and b: "n_type b = file_node"
    using ab node_type_cases[of "n_type b"] by (auto simp: compareNodes_def split: if_splits)
  have "n_type c = file_node"
    using bc b node_type_cases[of "n_type c"] by (auto simp: compareNodes_def split: if_splits)
  then show ?thesis using a by (simp add: compareNodes_def)
qed

lemma compareNodes_total:
  assumes C: "\<And>a b. localeCompare pf a b \<le> 0 \<or> localeCompare pf b a \<le> 0"
  shows "compareNodes pf a b \<le> 0 \<or> compareNodes pf b a \<le> 0"
  using C[of "n_name a" "n_name b"] node_type_cases[of "n_type a"] node_type_cases[of "n_type b"]
  by (auto simp: compareNodes_def)

lemma compareNodes_consistent:
  assumes "consistent_comparator (localeCompare pf)"
  shows "consistent_comparator (compareNodes pf)"
proof -
  have T: "localeCompare pf a b \<le> 0 \<Longrightarrow> localeCompare pf b c \<le> 0 \<Longrightarrow> localeCompare pf a c \<le> 0" for a b c
    using assms unfolding consistent_comparator_def by blast
  have C: "localeCompare pf a b \<le> 0 \<or> localeCompare pf b a \<le> 0" for a b
    using assms unfolding consistent_comparator_def by blast
  have "compareNodes pf a c \<le> 0" if "compareNodes pf a b \<le> 0" "compareNodes pf b c \<le> 0" for a b c
    using compareNodes_trans[OF T that refl] .
  moreover have "compareNodes pf a b \<le> 0 \<or> compareNodes pf b a \<le> 0" for a b
    using compareNodes_total[OF C] .
  ultimately show ?thesis unfolding consistent_comparator_def by blast
qed

lemma sorted_sort_by_consistent:
  "consistent_comparator cmp \<Longrightarrow> sorted_wrt (\<lambda>a b. cmp a b \<le> 0) (sort_by cmp xs)"
  unfolding consistent_comparator_def by (rule sorted_sort_by; blast)

lemma compareNodes_le:
  "compareNodes pf a b \<le> 0 \<Longrightarrow>
   (n_type b = directory_node \<longrightarrow> n_type a = directory_node)
   \<and> (n_type a = n_type b \<longrightarrow> localeCompare pf (n_name a) (n_name b) \<le> 0)"
  using node_type_cases[of "n_type a"] node_type_cases[of "n_type b"]
  by (auto simp: compareNodes_def split: if_splits)

text \<open>
  The order of siblings, as far as the source fixes it: for a consistent
  \<open>localeCompare\<close>, in every directory node of a tree built by \<open>buildFileTree\<close> no file
  node comes before a directory node, and two children of the same kind are in the
  order \<open>localeCompare\<close> gives their names. The source folds no case and passes no
  locale or option: what that order is, is left to the host.
\<close>

lemma children_in_compareNodes_order:
  assumes "consistent_comparator (localeCompare pf)"
    and "buildFileTree pf options rootPath rootEntry = Inr tree"
    and "d \<in> set (nodes tree)" and "n_children d = Some cs" and "i < j" and "j < length cs"
  shows "(n_type (cs ! j) = directory_node \<longrightarrow> n_type (cs ! i) = directory_node)
     \<and> (n_type (cs ! i) = n_type (cs ! j) \<longrightarrow>
          localeCompare pf (n_name (cs ! i)) (n_name (cs ! j)) \<le> 0)"
proof -
  let ?le = "\<lambda>a b. compareNodes pf a b \<le> 0"
  let ?Q = "\<lambda>d. \<forall>cs. n_children d = Some cs \<longrightarrow> sorted_wrt ?le cs"
  from assms(2) obtain t where t: "buildTreeRecursive pf options rootPath rootPath rootEntry = Inr t"
    and tr: "tree = Node (generateRootId pf) (basename rootPath) directory_node rootPath [] (n_children t) None"
    and sub: "set (nodes tree) \<subseteq> insert tree (set (nodes t))"
    by (rule buildFileTree_nodes)
  have srt: "sorted_wrt ?le (sort_by (compareNodes pf) xs)" for xs
    using compareNodes_consistent[OF assms(1)] by (rule sorted_sort_by_consistent)
  have all: "\<forall>d \<in> set (nodes t). ?Q d"
    by (rule buildTreeRecursive_nodes[OF _ _ t]) (use srt in auto)
  have "?Q t" using all nodes_self by blast
  then have "?Q tree" by (simp add: tr)
  then have "?Q d" using all sub assms(3) by blast
  then have "sorted_wrt ?le cs" using assms(4) by blast
  then have "compareNodes pf (cs ! i) (cs ! j) \<le> 0"
    using assms(5,6) by (simp add: sorted_wrt_iff_nth_less)
  from compareNodes_le[OF this] show ?thesis .
qed

subsection \<open>Metrics and the tree endpoint\<close>

lemma fold_traverse:
  assumes "\<And>c s. c \<in> set cs \<Longrightarrow> totalFiles (traverseAndCount c s) = totalFiles s + length (file_nodes c)"
    and "\<And>c s. c \<in> set cs \<Longrightarrow> totalSize (sizeBreakdown (traverseAndCount c s)) = totalSize (sizeBreakdown s) + sum_list (map node_size (file_nodes c))"
    and "\<And>c s. c \<in> set cs \<Longrightarrow> averageFileSize (sizeBreakdown (traverseAndCount c s)) = averageFileSize (sizeBreakdown s)"
  shows "totalFiles (fold traverseAndCount cs s) = totalFiles s + length (concat (map file_nodes cs))
     \<and> totalSize (sizeBreakdown (fold traverseAndCount cs s))
          = totalSize (sizeBreakdown s) + sum_list (map node_size (concat (map file_nodes cs)))
     \<and> averageFileSize (sizeBreakdown (fold traverseAndCount cs s)) = averageFileSize (sizeBreakdown s)"
  using assms by (induction cs arbitrary: s) auto

lemma traverseAndCount_totals:
  "totalFiles (traverseAndCount t s) = totalFiles s + length (file_nodes t)
   \<and> totalSize (sizeBreakdown (traverseAndCount t s))
        = totalSize (sizeBreakdown s) + sum_list (map node_size (file_nodes t))
   \<and> averageFileSize (sizeBreakdown (traverseAndCount t s)) = averageFileSize (sizeBreakdown s)"
proof (induction t s rule: traverseAndCount.induct)
  case (1 i nm ty p rel children metadata stats)
  show ?case
  proof (cases ty)
    case file_node
    then show ?thesis
      by (cases metadata; cases children)
        (auto simp: Let_def count_metadata_def node_size_def)
  next
    case directory_node
    show ?thesis
    proof (cases children)
      case None
      then show ?thesis using directory_node by (simp add: Let_def)
    next
      case (Some cs)
      let ?s1 = "stats\<lparr>totalDirectories := totalDirectories stats + 1\<rparr>"
      have "totalFiles (fold traverseAndCount cs ?s1) = totalFiles ?s1 + length (concat (map file_nodes cs))
     \<and> totalSize (sizeBreakdown (fold traverseAndCount cs ?s1))
          = totalSize (sizeBreakdown ?s1) + sum_list (map node_size (concat (map file_nodes cs)))
     \<and> averageFileSize (sizeBreakdown (fold traverseAndCount cs ?s1)) = averageFileSize (sizeBreakdown ?s1)"
        by (rule fold_traverse) (use "1.IH"[OF directory_node refl Some] in auto)
      then show ?thesis using directory_node Some by (simp add: Let_def)
    qed
  qed
qed


lemma calculateMetrics_zero_files:
  assumes "file_nodes tree = []"
  shows "calculateMetrics tree = traverseAndCount tree initial_stats"
    and "totalFiles (calculateMetrics tree) = 0"
    and "sizeBreakdown (calculateMetrics tree) = \<lparr>totalSize = 0, averageFileSize = Num 0\<rparr>"
proof -
  have z: "totalFiles (traverseAndCount tree initial_stats) = 0"
    "totalSize (sizeBreakdown (traverseAndCount tree initial_stats)) = 0"
    "averageFileSize (sizeBreakdown (traverseAndCount tree initial_stats)) = Num 0"
    using traverseAndCount_totals[of tree initial_stats] assms by (simp_all add: initial_stats_def)
  show c: "calculateMetrics tree = traverseAndCount tree initial_stats"
    using z(1) by (simp add: calculateMetrics_def Let_def)
  show "totalFiles (calculateMetrics tree) = 0" using c z(1) by simp
  show "sizeBreakdown (calculateMetrics tree) = \<lparr>totalSize = 0, averageFileSize = Num 0\<rparr>"
    using c z(2,3) by (cases "sizeBreakdown (traverseAndCount tree initial_stats)") simp
qed

text \<open>
  C2 (the code departs from the claim): for a tree without file nodes \<open>calculateMetrics\<close>
  leaves \<open>averageFileSize\<close> at 0, its division being guarded by \<open>totalFiles > 0\<close>; the
  handler of \<open>GET /analysis/:id/tree\<close> divides the stored totals without a guard, and
  for the same tree answers \<open>Math.round(0 / 0)\<close>, which is \<open>NaN\<close>.
\<close>

theorem zero_files_average:
  assumes "file_nodes tree = []"
    and "save_tree ident tree (calculateMetrics tree) trees0 = Inr trees"
    and "analyses ident = Some analysis"
  shows "averageFileSize (sizeBreakdown (calculateMetrics tree)) = Num 0
     \<and> reply_average (get_tree analyses trees ident) = Some NaN"
proof -
  note m = calculateMetrics_zero_files[OF assms(1)]
  from assms(2) obtain row where r: "trees ident = Some row"
     "ft_totalFiles row = 0" "ft_totalSize row = 0"
    by (auto simp: save_tree_def try_catch_def m(2,3) split: option.splits)
  have "reply_average (get_tree analyses trees ident) = Some NaN"
    by (simp add: get_tree_def assms(3) r reply_average_def js_divide_def Math_round_def)
  then show ?thesis by (simp add: m(3))
qed

theorem zero_files_average_witness:
  "file_nodes empty_tree = []
   \<and> save_tree ''a1'' empty_tree (calculateMetrics empty_tree) Map.empty = Inr demo_trees
   \<and> averageFileSize (sizeBreakdown (calculateMetrics empty_tree)) = Num 0
   \<and> reply_average (get_tree demo_analyses demo_trees ''a1'') = Some NaN"
proof -
  have f: "file_nodes empty_tree = []" by (simp add: empty_tree_def)
  have s: "save_tree ''a1'' empty_tree (calculateMetrics empty_tree) Map.empty = Inr demo_trees"
    by (simp add: demo_trees_def stored_empty_tree_def save_tree_def try_catch_def)
  obtain a where a: "demo_analyses ''a1'' = Some a"
    by (simp add: demo_analyses_def create_def demo_create_def)
  show ?thesis
    using zero_files_average[where analyses = demo_analyses and ident = "''a1''" and tree = empty_tree
        and trees = demo_trees and trees0 = Map.empty and analysis = a, OF f s a] f s
    by simp
qed



subsection \<open>Analysis worker\<close>

lemmas job_eval = processAnalysisJob_def pipeline_def try_catchJ_def bindJ_def returnJ_def throwJ_def
  updateStatusJ_def updateCommitShaJ_def updateProgressJ_def serviceJ_def cloneRepository_def
  deleteRepository_def buildFileTreeJ_def saveTreeJ_def parseFilesJ_def saveParsedFilesJ_def nowJ_def
  progress_def filesToParse_def relativeParsedFiles_def shouldParse_def maxFilesToParse_def
  job_outcome_def demo_job_def demo_world_def demo_analyses_def create_def demo_create_def
  demo_options_def good_services_def unlistable_services_def updateStatus_def try_catch_def
  truthy_str_def updateData_def apply_update_def db_message_def

lemmas parse_eval = parseFilesParallel_def parseFile_def route_def TypeScriptParser_parseFile_def
  PythonParser_parseFile_def isSupportedForParsing_def skipped_for_size_def worker_parser_options_def
  maxSize_def not_null_def demo_parser_env_def parsed_of_def DEFAULT_MAX_FILE_SIZE_def
  save_tree_def calculateMetrics_def initial_stats_def count_metadata_def js_divide_def Math_round_def
  saveParsedFiles_def row_key_def

lemma catch_block_keeps_disk:
  "w_disk (snd (bindJ (updateStatusJ ident failed (Some error)) (\<lambda>_. throwJ error) w)) = w_disk w"
  by (simp add: bindJ_def updateStatusJ_def throwJ_def split: sum.splits)

lemma unlistable_run:
  "job_outcome (processAnalysisJob unlistable_services demo_job demo_world) ''a1'' demo_root
     = (False, Some failed, True)"
  by (simp add: job_eval build_eval)

lemma good_run:
  "job_outcome (processAnalysisJob good_services demo_job demo_world) ''a1'' demo_root
     = (True, Some completed, False)"
  by (simp add: job_eval build_eval parse_eval)

text \<open>
  C1 (the code departs from the claim): a job whose clone succeeds and whose next step
  throws (here the cloned directory cannot be listed, so \<open>buildFileTree\<close> throws) is
  rejected with its record marked failed while the working copy is still on disk: the
  catch block of \<open>processAnalysisJob\<close> only updates the status and rethrows, and never
  touches the disk. On the successful run of the same job the working copy is removed
  and the record is completed.
\<close>

theorem failed_job_keeps_working_copy:
  "job_outcome (processAnalysisJob unlistable_services demo_job demo_world) ''a1'' demo_root
     = (False, Some failed, True)
   \<and> job_outcome (processAnalysisJob good_services demo_job demo_world) ''a1'' demo_root
     = (True, Some completed, False)
   \<and> w_disk (snd (bindJ (updateStatusJ ident failed (Some error)) (\<lambda>_. throwJ error) w)) = w_disk w"
  using unlistable_run good_run catch_block_keeps_disk by simp



subsection \<open>Python classes and methods\<close>

lemma step_if_pos: "st' \<in> set (step_if ok st) \<Longrightarrow> ms_pos st \<le> ms_pos st'"
  by (auto simp: step_if_def split: list.splits if_splits)

lemma star_pos:
  assumes "\<And>s s'. s' \<in> set (m s) \<Longrightarrow> ms_pos s \<le> ms_pos s'"
  shows "st' \<in> set (star n m st) \<Longrightarrow> ms_pos st \<le> ms_pos st'"
proof (induction n arbitrary: st)
  case 0
  then show ?case by simp
next
  case (Suc n)
  from Suc.prems consider "st' = st"
    | s where "s \<in> set (m st)" "ms_pos st < ms_pos s" "st' \<in> set (star n m s)"
    by (auto split: if_splits)
  then show ?case
  proof cases
    case 1
    then show ?thesis by simp
  next
    case 2
    then show ?thesis using Suc.IH[of s] by simp
  qed
qed

lemma run_pos: "st' \<in> set (run r st) \<Longrightarrow> ms_pos st \<le> ms_pos st'"
proof (induction r arbitrary: st st')
  case (Cat a b)
  then show ?case by (fastforce dest: order_trans)
next
  case (Star a)
  then show ?case using star_pos[of "run a"] by auto
next
  case (Plus a)
  from Plus.prems obtain s where s: "s \<in> set (run a st)" "st' \<in> set (star (length (ms_rest s)) (run a) s)"
    by auto
  have "ms_pos s \<le> ms_pos st'" using star_pos[of "run a", OF Plus.IH s(2)] .
  then show ?case using Plus.IH[OF s(1)] by simp
next
  case (Cap n a)
  then show ?case by auto
qed (auto dest: step_if_pos split: option.splits if_splits)

lemma exec_from_index:
  "exec_from r i prev rest = Some m \<Longrightarrow> i \<le> rm_index m \<and> rm_index m \<le> ms_pos (rm_after m)"
proof (induction r i prev rest rule: exec_from.induct)
  case (1 r i prev)
  show ?case
  proof (cases "run r \<lparr>ms_pos = i, ms_prev = prev, ms_rest = [], ms_caps = []\<rparr>")
    case Nil
    then show ?thesis using 1 by auto
  next
    case (Cons st sts)
    then have "st \<in> set (run r \<lparr>ms_pos = i, ms_prev = prev, ms_rest = [], ms_caps = []\<rparr>)" by simp
    from run_pos[OF this] show ?thesis using 1 Cons by auto
  qed
next
  case (2 r i prev x xs)
  show ?case
  proof (cases "run r \<lparr>ms_pos = i, ms_prev = prev, ms_rest = x # xs, ms_caps = []\<rparr>")
    case Nil
    then show ?thesis using 2 by auto
  next
    case (Cons st sts)
    then have "st \<in> set (run r \<lparr>ms_pos = i, ms_prev = prev, ms_rest = x # xs, ms_caps = []\<rparr>)" by simp
    from run_pos[OF this] show ?thesis using 2 Cons by auto
  qed
qed

lemma next_class_test_dead:
  assumes "exec_at r st = Some m"
  shows "method_of content lines classLine m =
     (if line_of content (rm_index m) \<le> classLine \<or> group_text m 1 = [] then []
      else [method_info content lines m])"
proof -
  have a: "rm_index m \<le> ms_pos (rm_after m)"
    using assms exec_from_index unfolding exec_at_def by blast
  have "rm_index m \<le> rm_index nc" if "exec_at nextClassRegex (rm_after m) = Some nc" for nc
    using that exec_from_index[of nextClassRegex] a unfolding exec_at_def by fastforce
  then show ?thesis
    by (auto simp: method_of_def split: option.splits)
qed

lemma two_classes_methods:
  "class_method_names (extractClasses two_classes (split_char LF two_classes))
     = Some [(''A'', [''a'', ''b'']), (''B'', [''b''])]"
  by code_simp

text \<open>
  C7 (the code departs from the claim): on a file with two top-level classes \<open>A\<close>
  (method \<open>a\<close>) and \<open>B\<close> (method \<open>b\<close>), the methods of \<open>A\<close> are \<open>a\<close> and \<open>b\<close>. The
  test meant to stop at the next class searches for the next class header from the end
  of the method's match and then asks whether it starts before the method, which never
  holds: for every match the loop pushes the method whenever it lies after the class
  line (and is indented), whatever class headers lie between.
\<close>

theorem later_class_methods_attributed:
  "class_method_names (extractClasses two_classes (split_char LF two_classes))
     = Some [(''A'', [''a'', ''b'']), (''B'', [''b''])]
   \<and> (exec_at r st = Some m \<longrightarrow>
        method_of content lines classLine m =
          (if line_of content (rm_index m) \<le> classLine \<or> group_text m 1 = [] then []
           else [method_info content lines m]))"
  using two_classes_methods next_class_test_dead by blast

theorem later_class_methods_attributed_witness:
  "exec_at methodRegex after_method_a = Some match_method_b
   \<and> line_of two_classes (rm_index match_method_b) = 5
   \<and> map f_name (method_of two_classes (split_char LF two_classes) 1 match_method_b) = [''b'']"
proof -
  have h: "exec_at methodRegex after_method_a = Some match_method_b" by code_simp
  have l: "line_of two_classes (rm_index match_method_b) = 5" by code_simp
  have g: "group_text match_method_b 1 \<noteq> []" by code_simp
  have n: "f_name (method_info two_classes (split_char LF two_classes) match_method_b) = ''b''"
    by (simp add: method_info_def group_text_def group_def match_method_b_def)
  have "method_of two_classes (split_char LF two_classes) 1 match_method_b
      = [method_info two_classes (split_char LF two_classes) match_method_b]"
    using later_class_methods_attributed[of methodRegex after_method_a match_method_b
        two_classes "split_char LF two_classes" 1] h l g
    by simp
  then show ?thesis using h l n by simp
qed


end
